theory Spec2Isabelle
  imports
    Complex_Main
    "HOL-Library.Signed_Division"
    "HOL-Library.Sublist"
    "HOL-Library.Char_ord"
    "HOL-Library.List_Lexorder"
begin

section \<open>Conventions of the embedding\<close>

text \<open>
  The C++ sources compute on \<^verbatim>\<open>double\<close>; the embedding computes on \<^typ>\<open>real\<close>, so
  rounding is not modelled. A \<^verbatim>\<open>system_clock::time_point\<close> is an \<^typ>\<open>int\<close> counting
  seconds, and \<^verbatim>\<open>duration_cast<hours>(a - b).count()\<close> is the signed quotient by 3600,
  truncated toward zero as C++ integer division is. Every function that reads the clock
  takes the instant \<open>now\<close> as an argument.

  A \<^verbatim>\<open>std::map\<close> keyed by strings is an association list in iteration order;
  \<open>map_assign\<close> is \<^verbatim>\<open>m[k] = v\<close> (overwrite in place, or insert at the key's position in
  the lexicographic order of \<^verbatim>\<open>std::string\<close>), \<^const>\<open>map_of\<close> is \<^verbatim>\<open>find\<close>.
  A \<^verbatim>\<open>std::set\<close> or \<^verbatim>\<open>std::vector\<close> is a list in iteration order.
\<close>

type_synonym time_point = int

definition hours_between :: "time_point \<Rightarrow> time_point \<Rightarrow> int" where
  "hours_between later earlier = (later - earlier) sdiv 3600"

fun map_assign :: "string \<Rightarrow> 'v \<Rightarrow> (string \<times> 'v) list \<Rightarrow> (string \<times> 'v) list" where
  "map_assign k v [] = [(k, v)]"
| "map_assign k v ((k', v') # m) =
     (if k = k' then (k, v) # m
      else if k < k' then (k, v) # (k', v') # m
      else (k', v') # map_assign k v m)"

section \<open>Data model\<close>

text \<open>\<^verbatim>\<open>struct MemoryEvent\<close> of memory.hpp. The free functions of memory.cpp spell the
  fields \<^verbatim>\<open>Content\<close>, \<^verbatim>\<open>EmotionalWeight\<close>, \<^verbatim>\<open>TraitInfluences\<close>, \<^verbatim>\<open>Tags\<close>; they are the
  same fields here.\<close>

text \<open>\<open>id_m\<close> and \<open>context_m\<close> are the fields \<^verbatim>\<open>id\<close> and \<^verbatim>\<open>context\<close>.\<close>

record MemoryEvent =
  id_m :: string
  content :: string
  context_m :: string
  importance :: real
  emotional_weight :: real
  trait_influences :: "(string \<times> real) list"
  tags :: "string list"
  created_at :: time_point
  updated_at :: time_point

text \<open>\<^verbatim>\<open>EmotionalResonance\<close> and \<^verbatim>\<open>EmotionalPattern\<close> are declared outside the given
  sources; the records hold the fields that memory.cpp reads and writes.\<close>

record EmotionalResonance =
  Intensity :: real
  Duration :: real
  Trigger :: string
  StartTime :: time_point
  PeakTime :: time_point
  AssociatedMemories :: "string list"

record EmotionalPattern =
  PatternType :: string
  BaseIntensity :: real
  CurrentIntensity :: real
  LastTriggered :: time_point
  PatternMemories :: "MemoryEvent list"
  Triggers :: "string list"

text \<open>\<^verbatim>\<open>struct MemoryConnection\<close> of memory_types.hpp, with the field names memory.cpp uses.\<close>

record MemoryConnection =
  SourceMemory :: string
  TargetMemory :: string
  Strength :: real
  ConnectionType :: string
  SharedTraits :: "string list"

text \<open>An element of \<^verbatim>\<open>context.Evolution.GrowthPatterns\<close>. \<^verbatim>\<open>PatternStrength\<close> is the field
  \<^verbatim>\<open>Strength\<close>; it is \<open>None\<close> when the source computes \<^verbatim>\<open>0.0 / 0\<close>, which is NaN.\<close>

record GrowthPattern =
  TriggeringEvents :: "string list"
  PatternStrength :: "real option"

text \<open>The session context that \<^verbatim>\<open>GetMemoryContext(sessionID)\<close> returns by reference.
  \<^verbatim>\<open>GetMemoryContext\<close> is defined outside memory.cpp: the functions below are modelled on
  the context it yields.\<close>

record MemoryContext =
  ShortTermMemories :: "MemoryEvent list"
  LongTermMemories :: "MemoryEvent list"
  ActiveResonances :: "EmotionalResonance list"
  EmotionalPatterns :: "EmotionalPattern list"
  MemoryConnections :: "MemoryConnection list"
  memory_index :: "(string \<times> MemoryEvent) list"
  clusters :: "MemoryEvent list list"
  GrowthPatterns :: "GrowthPattern list"

section \<open>ResonanceEngine: the free function \<^verbatim>\<open>UpdateEmotionalPatterns(sessionID)\<close>\<close>

text \<open>memory.cpp 581-586: the intensity is multiplied by \<^verbatim>\<open>exp(-0.1 * timeSinceStart)\<close>.\<close>

definition decay_resonance :: "time_point \<Rightarrow> EmotionalResonance \<Rightarrow> EmotionalResonance" where
  "decay_resonance now resonance =
     (let timeSinceStart = hours_between now (StartTime resonance);
          timeFactor = exp (- (1/10) * real_of_int timeSinceStart)
      in resonance\<lparr>Intensity := Intensity resonance * timeFactor\<rparr>)"

text \<open>memory.cpp 601-606: the first short-term memory whose content equals
  \<open>memoryContent\<close>, if any (the inner loop breaks at the first match).\<close>

fun first_with_content :: "string \<Rightarrow> MemoryEvent list \<Rightarrow> MemoryEvent list" where
  "first_with_content memoryContent [] = []"
| "first_with_content memoryContent (memory # rest) =
     (if content memory = memoryContent then [memory]
      else first_with_content memoryContent rest)"

text \<open>memory.cpp 592-607: the pattern built from an already decayed resonance.\<close>

definition make_pattern ::
  "time_point \<Rightarrow> MemoryEvent list \<Rightarrow> EmotionalResonance \<Rightarrow> EmotionalPattern" where
  "make_pattern now stm resonance =
     \<lparr>PatternType = Trigger resonance,
      BaseIntensity = Intensity resonance,
      CurrentIntensity = Intensity resonance,
      LastTriggered = now,
      PatternMemories = concat (map (\<lambda>c. first_with_content c stm) (AssociatedMemories resonance)),
      Triggers = []\<rparr>"

text \<open>memory.cpp 580-612: the loop over the active resonances, threading the pattern list.
  Both tests read the intensity after this tick's multiplication.\<close>

fun process_resonances ::
  "time_point \<Rightarrow> MemoryEvent list \<Rightarrow> EmotionalResonance list \<Rightarrow> EmotionalPattern list
     \<Rightarrow> EmotionalResonance list \<times> EmotionalPattern list" where
  "process_resonances now stm [] patterns = ([], patterns)"
| "process_resonances now stm (resonance # rest) patterns =
     (let r = decay_resonance now resonance;
          patterns' =
            (if Intensity r < 1/10
             then (if Intensity r > 1/2 then patterns @ [make_pattern now stm r] else patterns)
             else patterns);
          (rest', patterns'') = process_resonances now stm rest patterns'
      in (r # rest', patterns''))"

text \<open>memory.cpp 575-621: the whole tick; the second statement is the erase/remove\_if
  filter pass.\<close>

definition UpdateEmotionalPatterns :: "time_point \<Rightarrow> MemoryContext \<Rightarrow> MemoryContext" where
  "UpdateEmotionalPatterns now memoryContext =
     (let (resonances, patterns) =
            process_resonances now (ShortTermMemories memoryContext)
              (ActiveResonances memoryContext) (EmotionalPatterns memoryContext)
      in memoryContext
           \<lparr>ActiveResonances := filter (\<lambda>r. \<not> Intensity r < 1/10) resonances,
            EmotionalPatterns := patterns\<rparr>)"

text \<open>A resonance of intensity 0.9 that started at second 0, alone in its context.\<close>

definition strong_resonance :: EmotionalResonance where
  "strong_resonance =
     \<lparr>Intensity = 9/10, Duration = 1, Trigger = ''praise'', StartTime = 0, PeakTime = 3600,
      AssociatedMemories = []\<rparr>"

definition ctx_strong :: MemoryContext where
  "ctx_strong =
     \<lparr>ShortTermMemories = [], LongTermMemories = [], ActiveResonances = [strong_resonance],
      EmotionalPatterns = [], MemoryConnections = [], memory_index = [], clusters = [],
      GrowthPatterns = []\<rparr>"

section \<open>MemoryManager: state and collaborators\<close>

text \<open>\<^verbatim>\<open>struct TraitBaseline\<close> and \<^verbatim>\<open>struct TraitEvolutionMetrics\<close> of memory.hpp, with the
  capitalised field names that memory.cpp uses. \<^verbatim>\<open>CurrentValue\<close> of a baseline is
  \<open>CurrentValue_b\<close> here, since the persona traits below have a field of the same name.
  A value-initialised struct (what \<^verbatim>\<open>operator[]\<close> inserts for a new key) is all zero.\<close>

record TraitBaseline =
  CurrentValue_b :: real
  TargetValue :: real
  AdjustmentRate :: real
  Stability :: real
  LastAdjustment :: time_point
  SupportingMemories :: "string list"
  ConflictingMemories :: "string list"

record TraitEvolutionMetrics =
  ShortTermChange :: real
  LongTermTrend :: real
  Volatility :: real
  Confidence :: real
  HistoricalValues :: "real list"
  LastUpdate :: time_point

definition default_TraitBaseline :: TraitBaseline where
  "default_TraitBaseline =
     \<lparr>CurrentValue_b = 0, TargetValue = 0, AdjustmentRate = 0, Stability = 0,
      LastAdjustment = 0, SupportingMemories = [], ConflictingMemories = []\<rparr>"

definition default_TraitEvolutionMetrics :: TraitEvolutionMetrics where
  "default_TraitEvolutionMetrics =
     \<lparr>ShortTermChange = 0, LongTermTrend = 0, Volatility = 0, Confidence = 0,
      HistoricalValues = [], LastUpdate = 0\<rparr>"

text \<open>\<^verbatim>\<open>m[k]\<close> used as an lvalue or read: the stored value, or a value-initialised one
  that is inserted.\<close>

definition map_index :: "string \<Rightarrow> 'v \<Rightarrow> (string \<times> 'v) list \<Rightarrow> 'v \<times> (string \<times> 'v) list" where
  "map_index k dflt m =
     (case map_of m k of Some v \<Rightarrow> (v, m) | None \<Rightarrow> (dflt, map_assign k dflt m))"

text \<open>The value type of \<^verbatim>\<open>memory_cache_\<close> is declared in neither memory.hpp nor
  memory\_types.hpp; \<^verbatim>\<open>UpdateCache\<close> reads only its \<^verbatim>\<open>last_accessed\<close>.\<close>

record CacheEntry =
  last_accessed :: time_point

datatype error = RuntimeError string | NullDereference | OutOfRange

text \<open>The members of \<^verbatim>\<open>MemoryManager\<close> that the modelled functions touch, named without
  the trailing underscore of the source. \<open>db\<close> is the state
  of the database behind the \<^verbatim>\<open>shared_ptr\<close>; \<open>default_context\<close> is the context of the
  session \<^verbatim>\<open>"default"\<close>. memory.cpp spells the trait maps both \<^verbatim>\<open>trait_baselines_\<close> and
  \<^verbatim>\<open>traitBaselines_\<close> (and \<^verbatim>\<open>traitEvolutionMetrics_\<close>); the header declares each once.\<close>

record 'db MemoryManager =
  is_initialized :: bool
  db :: 'db
  maxCacheSize :: nat
  memories :: "(string \<times> MemoryEvent) list"
  memory_cache :: "(string \<times> CacheEntry) list"
  trait_baselines :: "(string \<times> TraitBaseline) list"
  trait_evolution_metrics :: "(string \<times> TraitEvolutionMetrics) list"
  default_context :: MemoryContext

text \<open>What the modelled functions call outside memory.cpp: the query execution of
  \<^verbatim>\<open>database::Database\<close> (it may succeed or fail, and changes the database),
  \<^verbatim>\<open>std::to_string\<close>, the JSON dumps, and the test \<^verbatim>\<open>!context\<close> on a session context.\<close>

record 'db Environment =
  ExecuteQueryWithParams :: "'db \<Rightarrow> string \<Rightarrow> string list \<Rightarrow> bool \<times> 'db"
  to_string_double :: "real \<Rightarrow> string"
  to_string_time_t :: "time_point \<Rightarrow> string"
  dump_trait_influences :: "(string \<times> real) list \<Rightarrow> string"
  dump_tags :: "string list \<Rightarrow> string"
  context_not :: "MemoryContext \<Rightarrow> bool"

section \<open>MemoryStore: \<^verbatim>\<open>SaveMemory\<close> and \<^verbatim>\<open>UpdateMemory\<close>\<close>

text \<open>memory.cpp 689-692.\<close>

definition UpdateMemoryIndex :: "MemoryEvent \<Rightarrow> MemoryContext \<Rightarrow> MemoryContext" where
  "UpdateMemoryIndex memory ctx =
     ctx\<lparr>memory_index := map_assign (id_m memory) memory (memory_index ctx)\<rparr>"

text \<open>memory.cpp 697-704: the loop over the clusters, returning the flag \<^verbatim>\<open>added\<close>.\<close>

fun cluster_loop :: "MemoryEvent \<Rightarrow> MemoryEvent list list \<Rightarrow> bool \<times> MemoryEvent list list" where
  "cluster_loop memory [] = (False, [])"
| "cluster_loop memory (cluster # rest) =
     (case cluster of
        [] \<Rightarrow> (let (added, rest') = cluster_loop memory rest in (added, cluster # rest'))
      | first # _ \<Rightarrow>
          if \<bar>emotional_weight first - emotional_weight memory\<bar> < 1/10
          then (True, (cluster @ [memory]) # rest)
          else (let (added, rest') = cluster_loop memory rest in (added, cluster # rest')))"

text \<open>memory.cpp 694-708.\<close>

definition UpdateMemoryCluster :: "MemoryEvent \<Rightarrow> MemoryContext \<Rightarrow> MemoryContext" where
  "UpdateMemoryCluster memory ctx =
     (let (added, cs) = cluster_loop memory (clusters ctx)
      in if \<not> added then ctx\<lparr>clusters := cs @ [[memory]]\<rparr> else ctx\<lparr>clusters := cs\<rparr>)"

definition insert_query :: string where
  "insert_query = ''INSERT INTO memories (id, content, context, importance, emotional_weight, trait_influences, tags, created_at, updated_at) VALUES (?, ?, ?, ?, ?, ?, ?, ?, ?)''"

definition update_query :: string where
  "update_query = ''UPDATE memories SET content = ?, context = ?, importance = ?, emotional_weight = ?, trait_influences = ?, tags = ?, updated_at = ? WHERE id = ?''"

definition insert_params :: "'db Environment \<Rightarrow> MemoryEvent \<Rightarrow> string list" where
  "insert_params E memory =
     [id_m memory, content memory, context_m memory,
      to_string_double E (importance memory),
      to_string_double E (emotional_weight memory),
      dump_trait_influences E (trait_influences memory),
      dump_tags E (tags memory),
      to_string_time_t E (created_at memory),
      to_string_time_t E (updated_at memory)]"

definition update_params :: "'db Environment \<Rightarrow> MemoryEvent \<Rightarrow> string list" where
  "update_params E memory =
     [content memory, context_m memory,
      to_string_double E (importance memory),
      to_string_double E (emotional_weight memory),
      dump_trait_influences E (trait_influences memory),
      dump_tags E (tags memory),
      to_string_time_t E (updated_at memory),
      id_m memory]"

text \<open>memory.cpp 52-55 and 114-117: the in-memory part shared by both operations.\<close>

definition store_in_memory :: "MemoryEvent \<Rightarrow> 'db MemoryManager \<Rightarrow> 'db MemoryManager" where
  "store_in_memory memory s =
     s\<lparr>memories := map_assign (id_m memory) memory (memories s),
       default_context := UpdateMemoryCluster memory (UpdateMemoryIndex memory (default_context s))\<rparr>"

text \<open>memory.cpp 30-58. The result is the returned \<^verbatim>\<open>bool\<close> and the state afterwards.\<close>

definition SaveMemory ::
  "'db Environment \<Rightarrow> MemoryEvent \<Rightarrow> 'db MemoryManager \<Rightarrow> bool \<times> 'db MemoryManager" where
  "SaveMemory E memory s =
     (if \<not> is_initialized s then (False, s)
      else
        let (ok, db') = ExecuteQueryWithParams E (db s) insert_query (insert_params E memory)
        in if \<not> ok then (False, s\<lparr>db := db'\<rparr>)
           else (True, store_in_memory memory (s\<lparr>db := db'\<rparr>)))"

text \<open>memory.cpp 93-120.\<close>

definition UpdateMemory ::
  "'db Environment \<Rightarrow> MemoryEvent \<Rightarrow> 'db MemoryManager \<Rightarrow> bool \<times> 'db MemoryManager" where
  "UpdateMemory E memory s =
     (if \<not> is_initialized s then (False, s)
      else
        let (ok, db') = ExecuteQueryWithParams E (db s) update_query (update_params E memory)
        in if \<not> ok then (False, s\<lparr>db := db'\<rparr>)
           else (True, store_in_memory memory (s\<lparr>db := db'\<rparr>)))"

section \<open>MemoryManager: the member resonance entry point and what it calls\<close>

text \<open>memory.cpp 1131-1138: the new strength of one growth pattern. With no triggering
  event the quotient is \<^verbatim>\<open>0.0 / 0\<close>.\<close>

definition pattern_strength :: "(string \<times> MemoryEvent) list \<Rightarrow> GrowthPattern \<Rightarrow> real option" where
  "pattern_strength mems pattern =
     (let newIntensity =
            sum_list (map (\<lambda>memory. emotional_weight (snd memory))
              (filter (\<lambda>memory. id_m (snd memory) \<in> set (TriggeringEvents pattern)) mems))
      in if TriggeringEvents pattern = [] then None
         else Some (newIntensity / real (length (TriggeringEvents pattern))))"

text \<open>memory.cpp 1126-1140, the member \<^verbatim>\<open>MemoryManager::UpdateEmotionalPatterns()\<close>.\<close>

definition MemoryManager_UpdateEmotionalPatterns :: "'db MemoryManager \<Rightarrow> 'db MemoryManager" where
  "MemoryManager_UpdateEmotionalPatterns s =
     (if \<not> is_initialized s then s
      else s\<lparr>default_context := (default_context s)
              \<lparr>GrowthPatterns :=
                 map (\<lambda>pattern. pattern\<lparr>PatternStrength := pattern_strength (memories s) pattern\<rparr>)
                   (GrowthPatterns (default_context s))\<rparr>\<rparr>)"

text \<open>memory.cpp 1192-1196: the loop over \<^verbatim>\<open>memories_\<close>, by the keys present when it
  starts. The entry is modified in place, then \<^verbatim>\<open>UpdateMemory\<close> is called on it and its
  result is dropped. (\<^verbatim>\<open>UpdateMemory\<close> assigns \<^verbatim>\<open>memories_[memory.id]\<close>; the key walk is
  exact when that is a key already present, as it is for every entry that \<^verbatim>\<open>SaveMemory\<close>,
  \<^verbatim>\<open>LoadMemory\<close> or \<^verbatim>\<open>UpdateMemory\<close> stored.)\<close>

fun weights_loop :: "'db Environment \<Rightarrow> string list \<Rightarrow> 'db MemoryManager \<Rightarrow> 'db MemoryManager" where
  "weights_loop E [] s = s"
| "weights_loop E (key # rest) s =
     (case map_of (memories s) key of
        None \<Rightarrow> weights_loop E rest s
      | Some memory \<Rightarrow>
          let emotionalBoost = emotional_weight memory * (1/2);
              memory' = memory\<lparr>importance := importance memory + emotionalBoost\<rparr>;
              s' = s\<lparr>memories := map_assign key memory' (memories s)\<rparr>
          in weights_loop E rest (snd (UpdateMemory E memory' s')))"

text \<open>memory.cpp 1189-1197.\<close>

definition UpdateMemoryWeightsWithEmotion :: "'db Environment \<Rightarrow> 'db MemoryManager \<Rightarrow> 'db MemoryManager" where
  "UpdateMemoryWeightsWithEmotion E s =
     (if \<not> is_initialized s then s
      else weights_loop E (map fst (memories s)) s)"

text \<open>memory.cpp 1102-1124, the member \<^verbatim>\<open>MemoryManager::ProcessEmotionalResonance\<close>. The result
  is the exception thrown, if any, and the state afterwards. The resonance is a local
  variable that nothing reads; the fields the source leaves unassigned are shown empty.\<close>

definition ProcessEmotionalResonance ::
  "'db Environment \<Rightarrow> time_point \<Rightarrow> string \<Rightarrow> real \<Rightarrow> 'db MemoryManager
     \<Rightarrow> error option \<times> 'db MemoryManager" where
  "ProcessEmotionalResonance E now trigger intensity s =
     (if \<not> is_initialized s then (Some (RuntimeError ''MemoryManager not initialized''), s)
      else if context_not E (default_context s)
      then (Some (RuntimeError ''Failed to get memory context''), s)
      else
        let resonance = \<lparr>Intensity = intensity, Duration = 0, Trigger = trigger,
                         StartTime = now, PeakTime = now, AssociatedMemories = []\<rparr>;
            s1 = MemoryManager_UpdateEmotionalPatterns s;
            s2 = UpdateMemoryWeightsWithEmotion E s1
        in (None, s2))"

section \<open>TraitLedger inside MemoryManager\<close>

text \<open>memory.cpp 790-804. The result is the returned confidence and the state, in which
  \<^verbatim>\<open>operator[]\<close> may have inserted value-initialised entries.\<close>

definition CalculateTraitConfidence :: "string \<Rightarrow> 'db MemoryManager \<Rightarrow> real \<times> 'db MemoryManager" where
  "CalculateTraitConfidence traitName s =
     (let (baseline, tb) = map_index traitName default_TraitBaseline (trait_baselines s);
          (metrics, tm) = map_index traitName default_TraitEvolutionMetrics (trait_evolution_metrics s);
          consistencyScore = 1 - Volatility metrics;
          memorySupportScore =
            real (length (SupportingMemories baseline)) /
            real (length (SupportingMemories baseline) + length (ConflictingMemories baseline) + 1);
          trendConfidence = exp (- \<bar>LongTermTrend metrics\<bar>)
      in (consistencyScore * (4/10) + memorySupportScore * (3/10) + trendConfidence * (3/10),
          s\<lparr>trait_baselines := tb, trait_evolution_metrics := tm\<rparr>))"

text \<open>memory.cpp 729-752.\<close>

definition UpdateTraitStability :: "string \<Rightarrow> 'db MemoryManager \<Rightarrow> 'db MemoryManager" where
  "UpdateTraitStability traitName s =
     (let (baseline, tb) = map_index traitName default_TraitBaseline (trait_baselines s);
          (metrics, tm) = map_index traitName default_TraitEvolutionMetrics (trait_evolution_metrics s);
          hv = HistoricalValues metrics;
          metrics' =
            (if length hv \<ge> 2
             then (let mean = sum_list hv / real (length hv);
                       variance = sum_list (map (\<lambda>v. (v - mean)\<^sup>2) hv) / real (length hv)
                   in metrics\<lparr>Volatility := sqrt variance\<rparr>)
             else metrics);
          baseline' = baseline\<lparr>Stability := exp (- Volatility metrics') * Confidence metrics'\<rparr>
      in s\<lparr>trait_baselines := map_assign traitName baseline' tb,
            trait_evolution_metrics := map_assign traitName metrics' tm\<rparr>)"

text \<open>memory.cpp 710-727. The result is the exception thrown, if any, and the state.\<close>

definition UpdateTraitBaseline ::
  "'db Environment \<Rightarrow> time_point \<Rightarrow> string \<Rightarrow> real \<Rightarrow> 'db MemoryManager
     \<Rightarrow> error option \<times> 'db MemoryManager" where
  "UpdateTraitBaseline E now traitName influence s =
     (if \<not> is_initialized s then (Some (RuntimeError ''MemoryManager not initialized''), s)
      else if context_not E (default_context s)
      then (Some (RuntimeError ''Failed to get memory context''), s)
      else
        let (baseline, tb) = map_index traitName default_TraitBaseline (trait_baselines s);
            baseline' = baseline\<lparr>CurrentValue_b := CurrentValue_b baseline + influence,
                                  LastAdjustment := now\<rparr>;
            s' = s\<lparr>trait_baselines := map_assign traitName baseline' tb\<rparr>
        in (None, UpdateTraitStability traitName s'))"

section \<open>ClusterEngine: \<^verbatim>\<open>MemoryManager::UpdateMemoryAssociations\<close>\<close>

text \<open>memory.cpp 1247-1252: the sum, over the trait names of the first memory that the second
  one has too, of the smaller of the two influences.\<close>

definition traitStrength :: "MemoryEvent \<Rightarrow> MemoryEvent \<Rightarrow> real" where
  "traitStrength mem1 mem2 =
     sum_list (map (\<lambda>trait. case map_of (trait_influences mem2) (fst trait) of
                               None \<Rightarrow> 0
                             | Some other \<Rightarrow> min (snd trait) other)
                (trait_influences mem1))"

text \<open>memory.cpp 1255-1260: one for every tag of the first memory that the second has too.\<close>

definition tagStrength :: "MemoryEvent \<Rightarrow> MemoryEvent \<Rightarrow> real" where
  "tagStrength mem1 mem2 = real (length (filter (\<lambda>tag. tag \<in> set (tags mem2)) (tags mem1)))"

text \<open>memory.cpp 1242-1262: the connection built for a pair; the type tag and the shared-trait
  list of a default-constructed connection stay empty.\<close>

definition make_connection :: "string \<times> MemoryEvent \<Rightarrow> string \<times> MemoryEvent \<Rightarrow> MemoryConnection" where
  "make_connection mem1 mem2 =
     \<lparr>SourceMemory = fst mem1, TargetMemory = fst mem2,
      Strength = (traitStrength (snd mem1) (snd mem2) + tagStrength (snd mem1) (snd mem2)) / 2,
      ConnectionType = [], SharedTraits = []\<rparr>"

text \<open>memory.cpp 1239-1266: the inner loop for one \<open>mem1\<close>.\<close>

fun inner_loop :: "string \<times> MemoryEvent \<Rightarrow> (string \<times> MemoryEvent) list \<Rightarrow> MemoryConnection list" where
  "inner_loop mem1 [] = []"
| "inner_loop mem1 (mem2 # rest) =
     (if fst mem1 \<ge> fst mem2 then inner_loop mem1 rest
      else if Strength (make_connection mem1 mem2) > 3/10
      then make_connection mem1 mem2 # inner_loop mem1 rest
      else inner_loop mem1 rest)"

text \<open>memory.cpp 1224-1268. The connection list is cleared, then refilled by the two loops.\<close>

definition UpdateMemoryAssociations ::
  "'db Environment \<Rightarrow> 'db MemoryManager \<Rightarrow> error option \<times> 'db MemoryManager" where
  "UpdateMemoryAssociations E s =
     (if \<not> is_initialized s then (Some (RuntimeError ''MemoryManager not initialized''), s)
      else if context_not E (default_context s)
      then (Some (RuntimeError ''Failed to get memory context''), s)
      else (None,
            s\<lparr>default_context := (default_context s)
                \<lparr>MemoryConnections :=
                   concat (map (\<lambda>mem1. inner_loop mem1 (memories s)) (memories s))\<rparr>\<rparr>))"

text \<open>The strength that the specification words for \<^verbatim>\<open>UpdateMemoryAssociations\<close>: 0.3 per
  shared trait name, 0.2 per shared tag, and 0.2 more when the emotional weights differ by
  less than 0.2. It is written from the specification, to be compared with the code.\<close>

definition spec_strength :: "MemoryEvent \<Rightarrow> MemoryEvent \<Rightarrow> real" where
  "spec_strength mem1 mem2 =
     (3/10) * real (length (filter (\<lambda>trait. trait \<in> fst ` set (trait_influences mem2))
                              (map fst (trait_influences mem1))))
     + (2/10) * real (length (filter (\<lambda>tag. tag \<in> set (tags mem2)) (tags mem1)))
     + (if \<bar>emotional_weight mem1 - emotional_weight mem2\<bar> < 2/10 then 2/10 else 0)"

section \<open>MemoryStore: \<^verbatim>\<open>MemoryManager::UpdateCache\<close>\<close>

text \<open>memory.cpp 1393-1398: the scan for the oldest entry. \<open>it\<close> and \<open>oldest\<close> are positions
  in the cache; \<open>oldest_time\<close> is \<^verbatim>\<open>oldest->second.last_accessed\<close>. A later entry replaces
  the candidate only when strictly older.\<close>

fun scan_oldest :: "nat \<Rightarrow> nat \<Rightarrow> time_point \<Rightarrow> (string \<times> CacheEntry) list \<Rightarrow> nat" where
  "scan_oldest it oldest oldest_time [] = oldest"
| "scan_oldest it oldest oldest_time (entry # rest) =
     (if last_accessed (snd entry) < oldest_time
      then scan_oldest (Suc it) it (last_accessed (snd entry)) rest
      else scan_oldest (Suc it) oldest oldest_time rest)"

definition find_oldest :: "(string \<times> CacheEntry) list \<Rightarrow> nat" where
  "find_oldest cache =
     (case cache of [] \<Rightarrow> 0
      | first # _ \<Rightarrow> scan_oldest 0 0 (last_accessed (snd first)) cache)"

text \<open>\<^verbatim>\<open>erase(oldest)\<close>: the entry at that position is removed.\<close>

definition erase_at :: "nat \<Rightarrow> 'a list \<Rightarrow> 'a list" where
  "erase_at i xs = take i xs @ drop (Suc i) xs"

definition erase_oldest :: "(string \<times> CacheEntry) list \<Rightarrow> (string \<times> CacheEntry) list" where
  "erase_oldest cache = erase_at (find_oldest cache) cache"

text \<open>memory.cpp 1392-1400: the while loop.\<close>

function evict_loop :: "nat \<Rightarrow> (string \<times> CacheEntry) list \<Rightarrow> (string \<times> CacheEntry) list" where
  "evict_loop maxSize cache =
     (if length cache > maxSize then evict_loop maxSize (erase_oldest cache) else cache)"
  by pat_completeness auto
termination
proof (relation "measure (\<lambda>(maxSize, cache). length cache)")
  show "wf (measure (\<lambda>(maxSize, cache). length cache))"
    by simp
next
  fix maxSize :: nat and cache :: "(string \<times> CacheEntry) list"
  assume big: "maxSize < length cache"
  have bound: "scan_oldest it oldest t rest < it + length rest \<or> scan_oldest it oldest t rest = oldest"
    for it oldest t rest
  proof (induction rest arbitrary: it oldest t)
    case Nil
    show ?case by simp
  next
    case (Cons entry rest)
    show ?case
    proof (cases "last_accessed (snd entry) < t")
      case True
      with Cons [of "Suc it" it "last_accessed (snd entry)"] show ?thesis by auto
    next
      case False
      with Cons [of "Suc it" oldest t] show ?thesis by auto
    qed
  qed
  have "find_oldest cache < length cache"
  proof (cases cache)
    case Nil
    with big show ?thesis by simp
  next
    case (Cons first rest)
    with bound [of 0 0 "last_accessed (snd first)" cache] show ?thesis
      by (auto simp: find_oldest_def)
  qed
  then have "length (erase_oldest cache) < length cache"
    by (simp add: erase_oldest_def erase_at_def)
  then show "((maxSize, erase_oldest cache), (maxSize, cache)) \<in> measure (\<lambda>(maxSize, cache). length cache)"
    by simp
qed

declare evict_loop.simps [simp del]

text \<open>memory.cpp 1388-1401.\<close>

definition UpdateCache :: "'db MemoryManager \<Rightarrow> 'db MemoryManager" where
  "UpdateCache s =
     (if \<not> is_initialized s then s
      else s\<lparr>memory_cache := evict_loop (maxCacheSize s) (memory_cache s)\<rparr>)"

section \<open>Concrete inputs\<close>

text \<open>The two memories of the specification's clustering scenario.\<close>

definition mem_A :: MemoryEvent where
  "mem_A = \<lparr>id_m = ''A'', content = ''first'', context_m = [], importance = 1/2,
             emotional_weight = 6/10, trait_influences = [(''trust'', 1/2)], tags = [''x''],
             created_at = 0, updated_at = 0\<rparr>"

definition mem_B :: MemoryEvent where
  "mem_B = \<lparr>id_m = ''B'', content = ''second'', context_m = [], importance = 1/2,
             emotional_weight = 65/100, trait_influences = [(''trust'', 4/10)], tags = [''x''],
             created_at = 0, updated_at = 0\<rparr>"

text \<open>A memory inside its ranges: importance 0.8, emotional weight 0.6.\<close>

definition mem_hot :: MemoryEvent where
  "mem_hot = \<lparr>id_m = ''m1'', content = ''warm'', context_m = [], importance = 8/10,
               emotional_weight = 6/10, trait_influences = [], tags = [],
               created_at = 0, updated_at = 0\<rparr>"

text \<open>Two memories that share two trait names with small influences, no tag, and differ
  in emotional weight by 1.\<close>

definition mem_P :: MemoryEvent where
  "mem_P = \<lparr>id_m = ''P'', content = ''p'', context_m = [], importance = 1/2,
             emotional_weight = 0, trait_influences = [(''calm'', 1/10), (''trust'', 1/10)],
             tags = [], created_at = 0, updated_at = 0\<rparr>"

definition mem_Q :: MemoryEvent where
  "mem_Q = \<lparr>id_m = ''Q'', content = ''q'', context_m = [], importance = 1/2,
             emotional_weight = 1, trait_influences = [(''calm'', 1/10), (''trust'', 1/10)],
             tags = [], created_at = 0, updated_at = 0\<rparr>"

definition empty_context :: MemoryContext where
  "empty_context =
     \<lparr>ShortTermMemories = [], LongTermMemories = [], ActiveResonances = [],
      EmotionalPatterns = [], MemoryConnections = [], memory_index = [], clusters = [],
      GrowthPatterns = []\<rparr>"

text \<open>A database that records the queries it executes, and one whose every write fails.\<close>

type_synonym query_log = "(string \<times> string list) list"

definition env_ok :: "query_log Environment" where
  "env_ok =
     \<lparr>ExecuteQueryWithParams = (\<lambda>d q ps. (True, d @ [(q, ps)])),
      to_string_double = (\<lambda>x. []), to_string_time_t = (\<lambda>t. []),
      dump_trait_influences = (\<lambda>ts. []), dump_tags = (\<lambda>ts. []),
      context_not = (\<lambda>c. False)\<rparr>"

definition env_fail :: "query_log Environment" where
  "env_fail = env_ok\<lparr>ExecuteQueryWithParams := (\<lambda>d q ps. (False, d))\<rparr>"

definition manager_empty :: "query_log MemoryManager" where
  "manager_empty =
     \<lparr>is_initialized = True, db = [], maxCacheSize = 2, memories = [], memory_cache = [],
      trait_baselines = [], trait_evolution_metrics = [], default_context = empty_context\<rparr>"

definition manager_hot :: "query_log MemoryManager" where
  "manager_hot = manager_empty\<lparr>memories := [(''m1'', mem_hot)]\<rparr>"

definition manager_AB :: "query_log MemoryManager" where
  "manager_AB = manager_empty\<lparr>memories := [(''A'', mem_A), (''B'', mem_B)]\<rparr>"

definition manager_PQ :: "query_log MemoryManager" where
  "manager_PQ = manager_empty\<lparr>memories := [(''P'', mem_P), (''Q'', mem_Q)]\<rparr>"

text \<open>A trait baseline at 0.9 with empty history, and a trait whose volatility is 3.\<close>

definition manager_trust :: "query_log MemoryManager" where
  "manager_trust =
     manager_empty\<lparr>trait_baselines := [(''trust'', default_TraitBaseline\<lparr>CurrentValue_b := 9/10\<rparr>)]\<rparr>"

definition manager_volatile :: "query_log MemoryManager" where
  "manager_volatile =
     manager_empty\<lparr>trait_evolution_metrics :=
       [(''mood'', default_TraitEvolutionMetrics\<lparr>Volatility := 3\<rparr>)]\<rparr>"

definition manager_steady :: "query_log MemoryManager" where
  "manager_steady =
     manager_empty\<lparr>trait_evolution_metrics :=
       [(''mood'', default_TraitEvolutionMetrics\<lparr>Volatility := 1/2\<rparr>)]\<rparr>"

text \<open>A cache of three entries with distinct access times, over a capacity of two.\<close>

definition manager_cache3 :: "query_log MemoryManager" where
  "manager_cache3 =
     manager_empty\<lparr>memory_cache :=
       [(''a'', \<lparr>last_accessed = 30\<rparr>), (''b'', \<lparr>last_accessed = 10\<rparr>),
        (''c'', \<lparr>last_accessed = 20\<rparr>)]\<rparr>"

section \<open>Reading a trait's records\<close>

text \<open>The baseline and the metrics that \<^verbatim>\<open>CalculateTraitConfidence\<close> reads for a trait name:
  the stored ones, or value-initialised ones.\<close>

definition baseline_of :: "string \<Rightarrow> 'db MemoryManager \<Rightarrow> TraitBaseline" where
  "baseline_of traitName s = fst (map_index traitName default_TraitBaseline (trait_baselines s))"

definition metrics_of :: "string \<Rightarrow> 'db MemoryManager \<Rightarrow> TraitEvolutionMetrics" where
  "metrics_of traitName s =
     fst (map_index traitName default_TraitEvolutionMetrics (trait_evolution_metrics s))"

text \<open>The confidence as the specification words it: the same three terms, each clamped to
  the unit interval before weighting. It is written from the specification, to be compared
  with the code.\<close>

definition clamp01 :: "real \<Rightarrow> real" where
  "clamp01 x = min 1 (max 0 x)"

definition spec_confidence :: "real \<Rightarrow> nat \<Rightarrow> nat \<Rightarrow> real \<Rightarrow> real" where
  "spec_confidence volatility supporting conflicting longTermTrend =
     (4/10) * clamp01 (1 - volatility)
     + (3/10) * clamp01 (real supporting / real (supporting + conflicting + 1))
     + (3/10) * clamp01 (exp (- \<bar>longTermTrend\<bar>))"

section \<open>TraitLedger: \<^verbatim>\<open>PersonaSystem::UpdateTrait\<close> and \<^verbatim>\<open>PropagateTraitInfluence\<close>\<close>

text \<open>The types of the persona are declared outside persona\_system.hpp; the records hold
  the fields that persona\_system.cpp initialises and uses. The trait maps and the
  correlation table are association lists in iteration order.\<close>

record TraitEvolution =
  BaseValue :: real
  CurrentValue :: real
  DecayRate :: real
  ReinforcementRate :: real
  RelatedTraits :: "string list"
  LastUpdated :: time_point
  Evidence :: "string list"

record PersonalityProfile =
  CoreTraits :: "(string \<times> TraitEvolution) list"
  DerivedTraits :: "(string \<times> TraitEvolution) list"
  TraitCorrelations :: "(string \<times> real) list"

record Persona =
  ID :: string
  Personality :: PersonalityProfile

text \<open>\<open>activePersona\<close> is the object behind \<^verbatim>\<open>activePersona_\<close>, \<open>None\<close> for a null pointer.
  \<open>saved_traits\<close> lists the calls \<^verbatim>\<open>db_.SaveTrait(personaID, trait, value, confidence)\<close> made
  so far, the only use \<^verbatim>\<open>UpdateTrait\<close> makes of the database.\<close>

record PersonaSystem =
  activePersona :: "Persona option"
  saved_traits :: "(string \<times> string \<times> real \<times> real) list"

text \<open>persona\_system.cpp 314-328: decay since the last update, in days of whole hours;
  the influence scaled by the reinforcement rate; the clamp; evidence and timestamp.\<close>

definition apply_influence :: "time_point \<Rightarrow> real \<Rightarrow> string \<Rightarrow> TraitEvolution \<Rightarrow> TraitEvolution" where
  "apply_influence now influence evidence trait =
     (let timeSinceUpdate = real_of_int (hours_between now (LastUpdated trait)) / 24;
          decayFactor = exp (- DecayRate trait * timeSinceUpdate);
          decayed = CurrentValue trait * decayFactor
      in trait\<lparr>CurrentValue := min 1 (max 0 (decayed + influence * ReinforcementRate trait)),
               Evidence := Evidence trait @ [evidence],
               LastUpdated := now\<rparr>)"

text \<open>\<^verbatim>\<open>key.find(traitName) != std::string::npos\<close>: the name occurs somewhere in the key.\<close>

fun contains :: "string \<Rightarrow> string \<Rightarrow> bool" where
  "contains [] traitName = (traitName = [])"
| "contains (c # cs) traitName = (prefix traitName (c # cs) \<or> contains cs traitName)"

text \<open>persona\_system.cpp 440-445: the loop over the correlation table. \<open>call\<close> is the
  \<^verbatim>\<open>UpdateTrait\<close> that the loop body calls; \<^verbatim>\<open>substr\<close> throws when its position is past
  the end of the key. A result \<open>None\<close> is a call that has not returned.\<close>

fun propagate_loop ::
  "(string \<Rightarrow> real \<Rightarrow> string \<Rightarrow> PersonaSystem \<Rightarrow> (error + PersonaSystem) option)
     \<Rightarrow> string \<Rightarrow> real \<Rightarrow> (string \<times> real) list \<Rightarrow> PersonaSystem
     \<Rightarrow> (error + PersonaSystem) option" where
  "propagate_loop call traitName influence [] s = Some (Inr s)"
| "propagate_loop call traitName influence (entry # rest) s =
     (if contains (fst entry) traitName
      then (if length traitName + 1 > length (fst entry) then Some (Inl OutOfRange)
            else (case call (drop (length traitName + 1) (fst entry)) (influence * snd entry)
                         ''correlated_trait'' s of
                    None \<Rightarrow> None
                  | Some (Inl e) \<Rightarrow> Some (Inl e)
                  | Some (Inr s') \<Rightarrow> propagate_loop call traitName influence rest s'))
      else propagate_loop call traitName influence rest s)"

text \<open>persona\_system.cpp 436-446, with the \<^verbatim>\<open>UpdateTrait\<close> it calls as a parameter.\<close>

definition PropagateTraitInfluence_with ::
  "(string \<Rightarrow> real \<Rightarrow> string \<Rightarrow> PersonaSystem \<Rightarrow> (error + PersonaSystem) option)
     \<Rightarrow> string \<Rightarrow> real \<Rightarrow> PersonaSystem \<Rightarrow> (error + PersonaSystem) option" where
  "PropagateTraitInfluence_with call traitName influence s =
     (case activePersona s of
        None \<Rightarrow> Some (Inr s)
      | Some persona \<Rightarrow>
          propagate_loop call traitName influence (TraitCorrelations (Personality persona)) s)"

text \<open>persona\_system.cpp 295-332. \<^verbatim>\<open>UpdateTrait\<close> and \<^verbatim>\<open>PropagateTraitInfluence\<close> call each
  other with no bound, so the model carries fuel: the first argument bounds the depth of
  nested \<^verbatim>\<open>UpdateTrait\<close> calls, and \<open>None\<close> means that this depth did not suffice.
  \<^verbatim>\<open>activePersona_->ID\<close> is read before the null test.\<close>

primrec UpdateTrait ::
  "nat \<Rightarrow> time_point \<Rightarrow> string \<Rightarrow> real \<Rightarrow> string \<Rightarrow> PersonaSystem
     \<Rightarrow> (error + PersonaSystem) option" where
  "UpdateTrait 0 now traitName influence evidence s = None"
| "UpdateTrait (Suc fuel) now traitName influence evidence s =
     (case activePersona s of
        None \<Rightarrow> Some (Inl NullDereference)
      | Some persona \<Rightarrow>
          let saved = saved_traits s @ [(ID persona, traitName, influence, 8/10)];
              personality = Personality persona
          in (case map_of (CoreTraits personality) traitName of
                Some trait \<Rightarrow>
                  PropagateTraitInfluence_with (UpdateTrait fuel now) traitName influence
                    \<lparr>activePersona = Some (persona\<lparr>Personality := personality
                        \<lparr>CoreTraits := map_assign traitName
                           (apply_influence now influence evidence trait)
                           (CoreTraits personality)\<rparr>\<rparr>),
                     saved_traits = saved\<rparr>
              | None \<Rightarrow>
                  (case map_of (DerivedTraits personality) traitName of
                     None \<Rightarrow> Some (Inr \<lparr>activePersona = Some persona, saved_traits = saved\<rparr>)
                   | Some trait \<Rightarrow>
                       PropagateTraitInfluence_with (UpdateTrait fuel now) traitName influence
                         \<lparr>activePersona = Some (persona\<lparr>Personality := personality
                             \<lparr>DerivedTraits := map_assign traitName
                                (apply_influence now influence evidence trait)
                                (DerivedTraits personality)\<rparr>\<rparr>),
                          saved_traits = saved\<rparr>)))"

text \<open>\<^verbatim>\<open>PropagateTraitInfluence\<close> itself, at a given depth.\<close>

definition PropagateTraitInfluence ::
  "nat \<Rightarrow> time_point \<Rightarrow> string \<Rightarrow> real \<Rightarrow> PersonaSystem \<Rightarrow> (error + PersonaSystem) option" where
  "PropagateTraitInfluence fuel now traitName influence s =
     PropagateTraitInfluence_with (UpdateTrait fuel now) traitName influence s"

text \<open>The trait record that a name denotes: a core trait first, else a derived one
  (the lookup order of \<^verbatim>\<open>UpdateTrait\<close> and \<^verbatim>\<open>GetTraitStrength\<close>).\<close>

definition trait_of :: "PersonaSystem \<Rightarrow> string \<Rightarrow> TraitEvolution option" where
  "trait_of s traitName =
     (case activePersona s of
        None \<Rightarrow> None
      | Some persona \<Rightarrow>
          (case map_of (CoreTraits (Personality persona)) traitName of
             Some trait \<Rightarrow> Some trait
           | None \<Rightarrow> map_of (DerivedTraits (Personality persona)) traitName))"

text \<open>The value that the specification words for \<^verbatim>\<open>Influence\<close> on an existing trait: decay,
  then the amount itself, then the clamp. Written from the specification, to be compared
  with the code.\<close>

definition spec_influence_value :: "real \<Rightarrow> real \<Rightarrow> real \<Rightarrow> real \<Rightarrow> real" where
  "spec_influence_value currentValue decayRate daysSinceLastAdjustment amount =
     clamp01 (currentValue * exp (- decayRate * daysSinceLastAdjustment) + amount)"

text \<open>A persona with the three core traits \<open>x\<close>, \<open>yy\<close>, \<open>zzz\<close> and the correlation table
  \<open>x_yy\<close>, \<open>yy_zzz\<close>, keyed as \<^verbatim>\<open>AddTraitCorrelation\<close> keys it.\<close>

definition chain_system ::
  "TraitEvolution \<Rightarrow> TraitEvolution \<Rightarrow> TraitEvolution \<Rightarrow> real \<Rightarrow> real \<Rightarrow> PersonaSystem" where
  "chain_system tx ty tz c1 c2 =
     \<lparr>activePersona = Some
        \<lparr>ID = ''p'',
         Personality =
           \<lparr>CoreTraits = [(''x'', tx), (''yy'', ty), (''zzz'', tz)],
            DerivedTraits = [],
            TraitCorrelations = [(''x_yy'', c1), (''yy_zzz'', c2)]\<rparr>\<rparr>,
      saved_traits = []\<rparr>"

text \<open>A trait at 0.5 that does not decay and reinforces at rate \<open>r\<close>.\<close>

definition plain_trait :: "real \<Rightarrow> TraitEvolution" where
  "plain_trait r =
     \<lparr>BaseValue = 1/2, CurrentValue = 1/2, DecayRate = 0, ReinforcementRate = r,
      RelatedTraits = [], LastUpdated = 0, Evidence = []\<rparr>"

text \<open>A persona with the single core trait \<open>calm\<close>, reinforcing at 0.2, and a correlation
  table that does not mention it.\<close>

definition calm_persona :: Persona where
  "calm_persona =
     \<lparr>ID = ''p'',
      Personality =
        \<lparr>CoreTraits = [(''calm'', plain_trait (2/10))], DerivedTraits = [],
         TraitCorrelations = [(''joy_zest'', 1/2)]\<rparr>\<rparr>"

definition calm_system :: PersonaSystem where
  "calm_system = \<lparr>activePersona = Some calm_persona, saved_traits = []\<rparr>"

text \<open>A persona with the two core traits \<open>a\<close> and \<open>b\<close> and the one correlation \<open>a_b\<close>.\<close>

definition pair_system ::
  "TraitEvolution \<Rightarrow> TraitEvolution \<Rightarrow> real \<Rightarrow> (string \<times> string \<times> real \<times> real) list \<Rightarrow> PersonaSystem" where
  "pair_system ta tb c saved =
     \<lparr>activePersona = Some
        \<lparr>ID = ''p'',
         Personality =
           \<lparr>CoreTraits = [(''a'', ta), (''b'', tb)], DerivedTraits = [],
            TraitCorrelations = [(''a_b'', c)]\<rparr>\<rparr>,
      saved_traits = saved\<rparr>"

text \<open>Every core and derived trait of the active persona has its current value in the unit
  interval.\<close>

definition traits_in_range :: "PersonaSystem \<Rightarrow> bool" where
  "traits_in_range s =
     (case activePersona s of
        None \<Rightarrow> True
      | Some persona \<Rightarrow>
          list_all (\<lambda>entry. 0 \<le> CurrentValue (snd entry) \<and> CurrentValue (snd entry) \<le> 1)
            (CoreTraits (Personality persona) @ DerivedTraits (Personality persona)))"

text \<open>A sequence of \<^verbatim>\<open>UpdateTrait\<close> calls, each given as instant, trait name, influence and
  evidence, made one after the other on the same persona system; it ends at the first call
  that throws or does not return.\<close>

fun UpdateTrait_sequence ::
  "nat \<Rightarrow> (time_point \<times> string \<times> real \<times> string) list \<Rightarrow> PersonaSystem
     \<Rightarrow> (error + PersonaSystem) option" where
  "UpdateTrait_sequence fuel [] s = Some (Inr s)"
| "UpdateTrait_sequence fuel (call # rest) s =
     (case UpdateTrait fuel (fst call) (fst (snd call)) (fst (snd (snd call)))
             (snd (snd (snd call))) s of
        None \<Rightarrow> None
      | Some (Inl e) \<Rightarrow> Some (Inl e)
      | Some (Inr s') \<Rightarrow> UpdateTrait_sequence fuel rest s')"

text \<open>The persona that \<^verbatim>\<open>InitializeDefaultPersonas\<close> builds (persona\_system.cpp 85-160), with
  its three core traits, two derived traits and four correlations, last updated at
  second 0. The maps are listed in key order.\<close>

definition initial_trait :: "real \<Rightarrow> real \<Rightarrow> real \<Rightarrow> string list \<Rightarrow> TraitEvolution" where
  "initial_trait v decay reinforcement related =
     \<lparr>BaseValue = v, CurrentValue = v, DecayRate = decay, ReinforcementRate = reinforcement,
      RelatedTraits = related, LastUpdated = 0, Evidence = [''initial_setup'']\<rparr>"

definition clinginess_trait :: TraitEvolution where
  "clinginess_trait = initial_trait (7/10) (2/100) (2/10) [''emotional_awareness'', ''attachment'']"

definition awareness_trait :: TraitEvolution where
  "awareness_trait = initial_trait (8/10) (1/100) (1/10) [''sapphic_identity'', ''clinginess'']"

definition identity_trait :: TraitEvolution where
  "identity_trait = initial_trait (9/10) (1/100) (15/100) [''emotional_awareness'', ''flirtiness'']"

definition arousal_trait :: TraitEvolution where
  "arousal_trait = initial_trait (4/10) (5/100) (3/10) [''sapphic_identity'', ''flirtiness'']"

definition flirtiness_trait :: TraitEvolution where
  "flirtiness_trait = initial_trait (6/10) (3/100) (25/100) [''sapphic_identity'', ''arousal'']"

definition teaser_table :: "(string \<times> real) list" where
  "teaser_table =
     [(''clinginess_emotional_awareness'', 6/10),
      (''flirtiness_arousal'', 9/10),
      (''sapphic_identity_arousal'', 7/10),
      (''sapphic_identity_emotional_awareness'', 8/10)]"

definition teaser_persona :: Persona where
  "teaser_persona =
     \<lparr>ID = ''sapphic_teaser'',
      Personality =
        \<lparr>CoreTraits =
           [(''clinginess'', clinginess_trait),
            (''emotional_awareness'', awareness_trait),
            (''sapphic_identity'', identity_trait)],
         DerivedTraits = [(''arousal'', arousal_trait), (''flirtiness'', flirtiness_trait)],
         TraitCorrelations = teaser_table\<rparr>\<rparr>"

definition teaser_system :: PersonaSystem where
  "teaser_system = \<lparr>activePersona = Some teaser_persona, saved_traits = []\<rparr>"

section \<open>Properties of the resonance tick\<close>

lemma process_resonances_eq:
  "process_resonances now stm rs patterns = (map (decay_resonance now) rs, patterns)"
proof (induction rs arbitrary: patterns)
  case Nil
  show ?case by simp
next
  case (Cons r rs)
  have "\<not> (Intensity (decay_resonance now r) < 1/10 \<and> 1/2 < Intensity (decay_resonance now r))"
    by simp
  then show ?case
    by (simp add: Cons.IH Let_def)
qed

lemma UpdateEmotionalPatterns_eq:
  "UpdateEmotionalPatterns now c =
     c\<lparr>ActiveResonances :=
         filter (\<lambda>r. \<not> Intensity r < 1/10) (map (decay_resonance now) (ActiveResonances c))\<rparr>"
  by (simp add: UpdateEmotionalPatterns_def process_resonances_eq)

lemma exp_3_gt_9: "(9::real) < exp 3"
proof -
  have "1 + (3/2) + (3/2)\<^sup>2 / 2 \<le> exp (3/2 :: real)"
    by (rule exp_lower_Taylor_quadratic) simp
  then have a: "(29/8 :: real) \<le> exp (3/2)"
    by (simp add: power2_eq_square)
  have "exp (3::real) = exp (3/2) * exp (3/2)"
    by (simp add: exp_add [symmetric])
  moreover have "(29/8) * (29/8) \<le> exp (3/2 :: real) * exp (3/2)"
    using a by (intro mult_mono) simp_all
  ultimately show ?thesis by simp
qed

text \<open>
  Claim C1. A resonance that a tick drives below 0.1 and that was significant (above 0.5)
  when last measured is to emit exactly one pattern before it is removed. The code tests
  \<open>Intensity > 0.5\<close> on the value it has just found below 0.1, so the emitting branch is
  never taken: a resonance of intensity 0.9, swept thirty hours after its start, is removed
  and the pattern list stays empty.
\<close>

theorem C1_strong_resonance_removed_without_pattern:
  "1/2 < Intensity strong_resonance
   \<and> ActiveResonances (UpdateEmotionalPatterns 108000 ctx_strong) = []
   \<and> EmotionalPatterns (UpdateEmotionalPatterns 108000 ctx_strong) = []"
proof -
  have h: "hours_between 108000 0 = 30"
    by (simp add: hours_between_def signed_divide_int_def)
  have "exp (- (3::real)) < 1/9"
    using exp_3_gt_9 by (simp add: exp_minus field_simps)
  then have "(9/10) * exp (- (3::real)) < 1/10"
    by simp
  then show ?thesis
    by (simp add: UpdateEmotionalPatterns_eq ctx_strong_def strong_resonance_def
        decay_resonance_def h)
qed

lemma hours_between_nonneg: "earlier \<le> later \<Longrightarrow> 0 \<le> hours_between later earlier"
  by (simp add: hours_between_def signed_divide_int_def sgn_if pos_imp_zdiv_nonneg_iff)

lemma decay_twice:
  "decay_resonance now (decay_resonance now r) =
     r\<lparr>Intensity := Intensity r * exp (- (1/10) * real_of_int (hours_between now (StartTime r)))
                        * exp (- (1/10) * real_of_int (hours_between now (StartTime r)))\<rparr>"
  by (simp add: decay_resonance_def)

lemma decay_keeps_alive:
  assumes "StartTime r \<le> now" "0 \<le> Intensity r"
    and "\<not> Intensity (decay_resonance now (decay_resonance now r)) < 1/10"
  shows "\<not> Intensity (decay_resonance now r) < 1/10"
proof -
  define f where "f = exp (- (1/10) * real_of_int (hours_between now (StartTime r)))"
  have "0 \<le> hours_between now (StartTime r)"
    using assms(1) by (rule hours_between_nonneg)
  then have f1: "f \<le> 1" and f0: "0 \<le> f"
    by (simp_all add: f_def)
  have "Intensity r * f * f \<le> Intensity r * f"
    using f1 f0 assms(2) by (simp add: mult_left_le)
  moreover have "1/10 \<le> Intensity r * f * f"
    using assms(3) by (simp add: decay_resonance_def f_def)
  ultimately show ?thesis
    by (simp add: decay_resonance_def f_def)
qed

lemma filter_map_twice:
  assumes "\<forall>x\<in>set xs. P (d (d x)) \<longrightarrow> P (d x)"
  shows "filter P (map d (filter P (map d xs))) = filter P (map (d \<circ> d) xs)"
  using assms by (induction xs) auto

lemma decay_zero_hours:
  "hours_between now (StartTime r) = 0 \<Longrightarrow> decay_resonance now r = r"
  by (simp add: decay_resonance_def)

text \<open>
  Claim C9, amended. The sweep is not idempotent at a fixed instant: every run multiplies
  each intensity by \<open>exp (-0.1 * h)\<close> again, \<open>h\<close> the whole hours since the resonance
  started. For resonances that started no later than \<open>now\<close> with a non-negative
  intensity, two runs at \<open>now\<close> leave exactly the resonances whose intensity times the
  square of the factor is at least 0.1, with that intensity. Two runs equal one run when
  no resonance has a whole hour elapsed.
\<close>

theorem C9_two_sweeps_apply_the_factor_twice:
  assumes "\<forall>r\<in>set (ActiveResonances c). StartTime r \<le> now \<and> 0 \<le> Intensity r"
  shows "UpdateEmotionalPatterns now (UpdateEmotionalPatterns now c) =
           c\<lparr>ActiveResonances :=
               filter (\<lambda>r. \<not> Intensity r < 1/10)
                 (map (\<lambda>r. r\<lparr>Intensity := Intensity r
                          * exp (- (1/10) * real_of_int (hours_between now (StartTime r)))
                          * exp (- (1/10) * real_of_int (hours_between now (StartTime r)))\<rparr>)
                    (ActiveResonances c))\<rparr>
         \<and> ((\<forall>r\<in>set (ActiveResonances c). hours_between now (StartTime r) = 0) \<longrightarrow>
              UpdateEmotionalPatterns now (UpdateEmotionalPatterns now c) =
              UpdateEmotionalPatterns now c)"
proof
  let ?P = "\<lambda>r. \<not> Intensity r < 1/10"
  let ?d = "decay_resonance now"
  have "\<forall>r\<in>set (ActiveResonances c). ?P (?d (?d r)) \<longrightarrow> ?P (?d r)"
    using assms decay_keeps_alive by blast
  then have "filter ?P (map ?d (filter ?P (map ?d (ActiveResonances c)))) =
      filter ?P (map (?d \<circ> ?d) (ActiveResonances c))"
    by (rule filter_map_twice)
  moreover have "?d \<circ> ?d = (\<lambda>r. r\<lparr>Intensity := Intensity r
                          * exp (- (1/10) * real_of_int (hours_between now (StartTime r)))
                          * exp (- (1/10) * real_of_int (hours_between now (StartTime r)))\<rparr>)"
    by (rule ext) (simp add: decay_twice)
  ultimately show "UpdateEmotionalPatterns now (UpdateEmotionalPatterns now c) =
           c\<lparr>ActiveResonances :=
               filter (\<lambda>r. \<not> Intensity r < 1/10)
                 (map (\<lambda>r. r\<lparr>Intensity := Intensity r
                          * exp (- (1/10) * real_of_int (hours_between now (StartTime r)))
                          * exp (- (1/10) * real_of_int (hours_between now (StartTime r)))\<rparr>)
                    (ActiveResonances c))\<rparr>"
    by (simp add: UpdateEmotionalPatterns_eq)
next
  show "(\<forall>r\<in>set (ActiveResonances c). hours_between now (StartTime r) = 0) \<longrightarrow>
              UpdateEmotionalPatterns now (UpdateEmotionalPatterns now c) =
              UpdateEmotionalPatterns now c"
  proof
    assume z: "\<forall>r\<in>set (ActiveResonances c). hours_between now (StartTime r) = 0"
    then have "map (decay_resonance now) (ActiveResonances c) = ActiveResonances c"
      by (simp add: decay_zero_hours map_idI)
    moreover have "map (decay_resonance now) (filter (\<lambda>r. \<not> Intensity r < 1/10) (ActiveResonances c))
        = filter (\<lambda>r. \<not> Intensity r < 1/10) (ActiveResonances c)"
      using z by (intro map_idI) (simp add: decay_zero_hours)
    ultimately show "UpdateEmotionalPatterns now (UpdateEmotionalPatterns now c) =
              UpdateEmotionalPatterns now c"
      by (simp add: UpdateEmotionalPatterns_eq)
  qed
qed

theorem C9_two_sweeps_witness:
  "list_all (\<lambda>r. StartTime r \<le> 1800 \<and> 0 \<le> Intensity r) (ActiveResonances ctx_strong)
   \<and> list_all (\<lambda>r. hours_between 1800 (StartTime r) = 0) (ActiveResonances ctx_strong)
   \<and> ActiveResonances ctx_strong \<noteq> []
   \<and> UpdateEmotionalPatterns 1800 (UpdateEmotionalPatterns 1800 ctx_strong) =
       UpdateEmotionalPatterns 1800 ctx_strong"
proof -
  have h1: "\<forall>r\<in>set (ActiveResonances ctx_strong). StartTime r \<le> 1800 \<and> 0 \<le> Intensity r"
    by (simp add: ctx_strong_def strong_resonance_def)
  have h2: "\<forall>r\<in>set (ActiveResonances ctx_strong). hours_between 1800 (StartTime r) = 0"
    by (simp add: ctx_strong_def strong_resonance_def hours_between_def signed_divide_int_def)
  have ne: "ActiveResonances ctx_strong \<noteq> []"
    by (simp add: ctx_strong_def)
  from C9_two_sweeps_apply_the_factor_twice [OF h1] h2
  have "UpdateEmotionalPatterns 1800 (UpdateEmotionalPatterns 1800 ctx_strong) =
       UpdateEmotionalPatterns 1800 ctx_strong"
    by blast
  with h1 h2 ne show ?thesis
    by (simp add: list_all_iff)
qed

text \<open>
  Claim C9 as stated fails: one hour after the start of a resonance of intensity 0.9, a
  second sweep at the same instant lowers the intensity again.
\<close>

theorem C9_back_to_back_sweeps_differ:
  "map Intensity (ActiveResonances (UpdateEmotionalPatterns 3600 (UpdateEmotionalPatterns 3600 ctx_strong)))
   \<noteq> map Intensity (ActiveResonances (UpdateEmotionalPatterns 3600 ctx_strong))"
proof -
  define f :: real where "f = exp (- (1/10))"
  have h: "hours_between 3600 0 = 1"
    by (simp add: hours_between_def signed_divide_int_def)
  have "1 + (- (1/10)) \<le> exp (- (1/10) :: real)"
    by (rule exp_ge_add_one_self)
  then have lo: "9/10 \<le> f" by (simp add: f_def)
  have hi: "f < 1" by (simp add: f_def)
  have "(9/10) * (9/10) \<le> f * f"
    using lo by (intro mult_mono) simp_all
  then have k2: "\<not> (9/10) * f * f < 1/10" by simp
  have k1: "\<not> (9/10) * f < 1/10" using lo by simp
  have ne: "(9/10) * f * f \<noteq> (9/10) * f" using lo hi by simp
  show ?thesis
    using k1 k2 ne
    by (simp add: UpdateEmotionalPatterns_eq ctx_strong_def strong_resonance_def
        decay_resonance_def h f_def)
qed

section \<open>Properties of \<^verbatim>\<open>SaveMemory\<close> and \<^verbatim>\<open>UpdateMemory\<close>\<close>

lemma SaveMemory_failed_write:
  assumes "is_initialized s"
    and "\<not> fst (ExecuteQueryWithParams E (db s) insert_query (insert_params E memory))"
  shows "SaveMemory E memory s =
    (False, s\<lparr>db := snd (ExecuteQueryWithParams E (db s) insert_query (insert_params E memory))\<rparr>)"
  using assms
  by (cases "ExecuteQueryWithParams E (db s) insert_query (insert_params E memory)")
     (simp add: SaveMemory_def)

lemma UpdateMemory_failed_write:
  assumes "is_initialized s"
    and "\<not> fst (ExecuteQueryWithParams E (db s) update_query (update_params E memory))"
  shows "UpdateMemory E memory s =
    (False, s\<lparr>db := snd (ExecuteQueryWithParams E (db s) update_query (update_params E memory))\<rparr>)"
  using assms
  by (cases "ExecuteQueryWithParams E (db s) update_query (update_params E memory)")
     (simp add: UpdateMemory_def)

lemma SaveMemory_false:
  "\<not> fst (SaveMemory E memory s) \<Longrightarrow>
     snd (SaveMemory E memory s) = s\<lparr>db := db (snd (SaveMemory E memory s))\<rparr>"
  by (auto simp: SaveMemory_def split: prod.splits if_splits)

lemma UpdateMemory_false:
  "\<not> fst (UpdateMemory E memory s) \<Longrightarrow>
     snd (UpdateMemory E memory s) = s\<lparr>db := db (snd (UpdateMemory E memory s))\<rparr>"
  by (auto simp: UpdateMemory_def split: prod.splits if_splits)

text \<open>
  Claim C6. \<^verbatim>\<open>SaveMemory\<close> and \<^verbatim>\<open>UpdateMemory\<close> issue the database write first, on the
  database as the call found it and with parameters taken from the argument alone. When
  that write fails, the operation returns \<open>False\<close> and the state is the one before the call
  except for what the failed write did to the database; in every case in which the
  operation returns \<open>False\<close>, the memory map, the index and the clusters are those before
  the call.
\<close>

theorem C6_failed_write_leaves_memory_untouched:
  "(is_initialized s \<and> \<not> fst (ExecuteQueryWithParams E (db s) insert_query (insert_params E memory))
      \<longrightarrow> SaveMemory E memory s =
         (False, s\<lparr>db := snd (ExecuteQueryWithParams E (db s) insert_query (insert_params E memory))\<rparr>))
   \<and> (is_initialized s \<and> \<not> fst (ExecuteQueryWithParams E (db s) update_query (update_params E memory))
      \<longrightarrow> UpdateMemory E memory s =
         (False, s\<lparr>db := snd (ExecuteQueryWithParams E (db s) update_query (update_params E memory))\<rparr>))
   \<and> (\<not> fst (SaveMemory E memory s) \<longrightarrow>
        memories (snd (SaveMemory E memory s)) = memories s
        \<and> memory_index (default_context (snd (SaveMemory E memory s))) = memory_index (default_context s)
        \<and> clusters (default_context (snd (SaveMemory E memory s))) = clusters (default_context s))
   \<and> (\<not> fst (UpdateMemory E memory s) \<longrightarrow>
        memories (snd (UpdateMemory E memory s)) = memories s
        \<and> memory_index (default_context (snd (UpdateMemory E memory s))) = memory_index (default_context s)
        \<and> clusters (default_context (snd (UpdateMemory E memory s))) = clusters (default_context s))"
proof (intro conjI impI)
  assume "is_initialized s \<and> \<not> fst (ExecuteQueryWithParams E (db s) insert_query (insert_params E memory))"
  then show "SaveMemory E memory s =
         (False, s\<lparr>db := snd (ExecuteQueryWithParams E (db s) insert_query (insert_params E memory))\<rparr>)"
    by (simp add: SaveMemory_failed_write)
next
  assume "is_initialized s \<and> \<not> fst (ExecuteQueryWithParams E (db s) update_query (update_params E memory))"
  then show "UpdateMemory E memory s =
         (False, s\<lparr>db := snd (ExecuteQueryWithParams E (db s) update_query (update_params E memory))\<rparr>)"
    by (simp add: UpdateMemory_failed_write)
next
  assume f: "\<not> fst (SaveMemory E memory s)"
  show "memories (snd (SaveMemory E memory s)) = memories s"
    using SaveMemory_false [OF f] by (metis MemoryManager.select_convs(4) MemoryManager.surjective MemoryManager.update_convs(2))
  show "memory_index (default_context (snd (SaveMemory E memory s))) = memory_index (default_context s)"
    using arg_cong [OF SaveMemory_false [OF f], of "\<lambda>m. memory_index (default_context m)"] by simp
  show "clusters (default_context (snd (SaveMemory E memory s))) = clusters (default_context s)"
    using arg_cong [OF SaveMemory_false [OF f], of "\<lambda>m. clusters (default_context m)"] by simp
next
  assume f: "\<not> fst (UpdateMemory E memory s)"
  show "memories (snd (UpdateMemory E memory s)) = memories s"
    using UpdateMemory_false [OF f] by (metis MemoryManager.select_convs(4) MemoryManager.surjective MemoryManager.update_convs(2))
  show "memory_index (default_context (snd (UpdateMemory E memory s))) = memory_index (default_context s)"
    using arg_cong [OF UpdateMemory_false [OF f], of "\<lambda>m. memory_index (default_context m)"] by simp
  show "clusters (default_context (snd (UpdateMemory E memory s))) = clusters (default_context s)"
    using arg_cong [OF UpdateMemory_false [OF f], of "\<lambda>m. clusters (default_context m)"] by simp
qed

theorem C6_failed_write_witness:
  "is_initialized manager_AB
   \<and> \<not> fst (ExecuteQueryWithParams env_fail (db manager_AB) insert_query (insert_params env_fail mem_hot))
   \<and> \<not> fst (ExecuteQueryWithParams env_fail (db manager_AB) update_query (update_params env_fail mem_hot))
   \<and> \<not> fst (SaveMemory env_fail mem_hot manager_AB)
   \<and> \<not> fst (UpdateMemory env_fail mem_hot manager_AB)
   \<and> SaveMemory env_fail mem_hot manager_AB = (False, manager_AB)
   \<and> UpdateMemory env_fail mem_hot manager_AB = (False, manager_AB)
   \<and> memories (snd (SaveMemory env_fail mem_hot manager_AB)) = [(''A'', mem_A), (''B'', mem_B)]
   \<and> memories (snd (UpdateMemory env_fail mem_hot manager_AB)) = [(''A'', mem_A), (''B'', mem_B)]"
proof -
  have i: "is_initialized manager_AB"
    by (simp add: manager_AB_def manager_empty_def)
  have w1: "\<not> fst (ExecuteQueryWithParams env_fail (db manager_AB) insert_query (insert_params env_fail mem_hot))"
    by (simp add: env_fail_def env_ok_def)
  have w2: "\<not> fst (ExecuteQueryWithParams env_fail (db manager_AB) update_query (update_params env_fail mem_hot))"
    by (simp add: env_fail_def env_ok_def)
  have d1: "snd (ExecuteQueryWithParams env_fail (db manager_AB) insert_query (insert_params env_fail mem_hot)) = db manager_AB"
    by (simp add: env_fail_def env_ok_def)
  have d2: "snd (ExecuteQueryWithParams env_fail (db manager_AB) update_query (update_params env_fail mem_hot)) = db manager_AB"
    by (simp add: env_fail_def env_ok_def)
  have m: "memories manager_AB = [(''A'', mem_A), (''B'', mem_B)]"
    by (simp add: manager_AB_def)
  note t = C6_failed_write_leaves_memory_untouched [of manager_AB env_fail mem_hot]
  from t i w1 d1 have s1: "SaveMemory env_fail mem_hot manager_AB = (False, manager_AB)"
    by simp
  from t i w2 d2 have s2: "UpdateMemory env_fail mem_hot manager_AB = (False, manager_AB)"
    by simp
  from i w1 w2 s1 s2 m show ?thesis by simp
qed

section \<open>The member resonance entry point and the importance update\<close>

lemma UpdateMemoryCluster_fields:
  "UpdateMemoryCluster memory ctx = ctx\<lparr>clusters := clusters (UpdateMemoryCluster memory ctx)\<rparr>"
  by (simp add: UpdateMemoryCluster_def split: prod.splits)

lemma store_in_memory_resonances:
  "ActiveResonances (default_context (store_in_memory memory s)) = ActiveResonances (default_context s)"
proof -
  have "ActiveResonances (UpdateMemoryCluster memory c) = ActiveResonances c" for c
    using arg_cong [OF UpdateMemoryCluster_fields [of memory c], of ActiveResonances] by simp
  then show ?thesis
    by (simp add: store_in_memory_def UpdateMemoryIndex_def)
qed

lemma UpdateMemory_resonances:
  "ActiveResonances (default_context (snd (UpdateMemory E memory s))) = ActiveResonances (default_context s)"
  by (simp add: UpdateMemory_def store_in_memory_resonances split: prod.splits)

lemma weights_loop_resonances:
  "ActiveResonances (default_context (weights_loop E keys s)) = ActiveResonances (default_context s)"
proof (induction keys arbitrary: s)
  case Nil
  show ?case by simp
next
  case (Cons key rest)
  show ?case
  proof (cases "map_of (memories s) key")
    case None
    then show ?thesis by (simp add: Cons.IH)
  next
    case (Some memory)
    then show ?thesis
      by (simp add: Cons.IH UpdateMemory_resonances Let_def)
  qed
qed

text \<open>
  Claim C10. The member \<^verbatim>\<open>MemoryManager::ProcessEmotionalResonance\<close> leaves the list of
  active resonances of the session as it was, for every trigger, intensity, instant,
  state and environment, whether it throws or returns: the resonance it builds is never
  stored.
\<close>

theorem C10_member_resonance_call_keeps_active_resonances:
  "ActiveResonances (default_context (snd (ProcessEmotionalResonance E now trigger intensity s)))
     = ActiveResonances (default_context s)"
  by (simp add: ProcessEmotionalResonance_def UpdateMemoryWeightsWithEmotion_def
      MemoryManager_UpdateEmotionalPatterns_def weights_loop_resonances Let_def)

lemma map_of_map_assign_same: "map_of (map_assign k v m) k = Some v"
  by (induction m) auto

lemma importance_after_weights_update:
  "map_option importance (map_of (memories (UpdateMemoryWeightsWithEmotion E manager_hot)) ''m1'')
     = Some (11/10)"
proof -
  let ?m = "mem_hot\<lparr>importance := 11/10\<rparr>"
  let ?s = "manager_hot\<lparr>memories := [(''m1'', ?m)]\<rparr>"
  have u: "memories (snd (UpdateMemory E ?m ?s)) = [(''m1'', ?m)]"
    by (simp add: UpdateMemory_def store_in_memory_def manager_hot_def manager_empty_def
        mem_hot_def split: prod.splits)
  have "memories (UpdateMemoryWeightsWithEmotion E manager_hot) = [(''m1'', ?m)]"
    using u
    by (simp add: UpdateMemoryWeightsWithEmotion_def manager_hot_def manager_empty_def
        mem_hot_def Let_def)
  then show ?thesis
    by simp
qed

text \<open>
  Claim C2. Every bounded field is to be inside its range after every mutation; in
  particular importance after \<^verbatim>\<open>UpdateMemoryWeightsWithEmotion\<close> and a trait's current value
  after an influence. The two \<^verbatim>\<open>MemoryManager\<close> paths miss the clamp that their siblings in
  persona\_system.cpp apply: \<^verbatim>\<open>UpdateMemoryWeightsWithEmotion\<close> takes a memory with
  importance 0.8 and emotional weight 0.6, both in range, to importance 1.1, and
  \<^verbatim>\<open>UpdateTraitBaseline\<close> takes a baseline from 0.9 to 1.4 on an influence of 0.5.
\<close>

theorem C2_importance_and_baseline_leave_the_unit_interval:
  "importance mem_hot \<in> {0..1} \<and> emotional_weight mem_hot \<in> {-1..1}
   \<and> map_option importance
         (map_of (memories (UpdateMemoryWeightsWithEmotion env_ok manager_hot)) ''m1'')
       = Some (11/10)
   \<and> map_option CurrentValue_b (map_of (trait_baselines manager_trust) ''trust'') = Some (9/10)
   \<and> map_option CurrentValue_b
         (map_of (trait_baselines (snd (UpdateTraitBaseline env_ok 0 ''trust'' (1/2) manager_trust))) ''trust'')
       = Some (14/10)"
proof -
  have b: "map_option CurrentValue_b
         (map_of (trait_baselines (snd (UpdateTraitBaseline env_ok 0 ''trust'' (1/2) manager_trust))) ''trust'')
       = Some (14/10)"
    by (simp add: UpdateTraitBaseline_def UpdateTraitStability_def map_index_def manager_trust_def
        manager_empty_def env_ok_def default_TraitBaseline_def default_TraitEvolutionMetrics_def
        Let_def)
  show ?thesis
    using importance_after_weights_update [of env_ok] b
    by (simp add: mem_hot_def manager_trust_def default_TraitBaseline_def)
qed

section \<open>Properties of the trait confidence\<close>

lemma CalculateTraitConfidence_value:
  "fst (CalculateTraitConfidence traitName s) =
     (1 - Volatility (metrics_of traitName s)) * (4/10)
     + (real (length (SupportingMemories (baseline_of traitName s)))
         / real (length (SupportingMemories (baseline_of traitName s))
                 + length (ConflictingMemories (baseline_of traitName s)) + 1)) * (3/10)
     + exp (- \<bar>LongTermTrend (metrics_of traitName s)\<bar>) * (3/10)"
  by (simp add: CalculateTraitConfidence_def metrics_of_def baseline_of_def Let_def
      split: prod.splits)

lemma support_score_range:
  "0 \<le> real a / real (a + b + 1) \<and> real a / real (a + b + 1) \<le> 1"
  by (simp add: divide_le_eq)

lemma trend_score_range: "0 \<le> exp (- \<bar>x::real\<bar>) \<and> exp (- \<bar>x\<bar>) \<le> 1"
  by simp

text \<open>
  Claim C5, amended. The confidence is the weighted sum of the three terms as they are,
  none of them clamped. The support term and the trend term lie in the unit interval by
  themselves, so the result is in the unit interval whenever the volatility is; a
  volatility above 2.5 makes it negative.
\<close>

theorem C5_confidence_is_the_unclamped_weighted_sum:
  "fst (CalculateTraitConfidence traitName s) =
     (4/10) * (1 - Volatility (metrics_of traitName s))
     + (3/10) * (real (length (SupportingMemories (baseline_of traitName s)))
         / real (length (SupportingMemories (baseline_of traitName s))
                 + length (ConflictingMemories (baseline_of traitName s)) + 1))
     + (3/10) * exp (- \<bar>LongTermTrend (metrics_of traitName s)\<bar>)
   \<and> (0 \<le> Volatility (metrics_of traitName s) \<and> Volatility (metrics_of traitName s) \<le> 1
        \<longrightarrow> 0 \<le> fst (CalculateTraitConfidence traitName s)
            \<and> fst (CalculateTraitConfidence traitName s) \<le> 1)
   \<and> (5/2 < Volatility (metrics_of traitName s)
        \<longrightarrow> fst (CalculateTraitConfidence traitName s) < 0)"
proof -
  define v where "v = Volatility (metrics_of traitName s)"
  define p where "p = real (length (SupportingMemories (baseline_of traitName s)))
         / real (length (SupportingMemories (baseline_of traitName s))
                 + length (ConflictingMemories (baseline_of traitName s)) + 1)"
  define t where "t = exp (- \<bar>LongTermTrend (metrics_of traitName s)\<bar>)"
  have c: "fst (CalculateTraitConfidence traitName s) = (4/10) * (1 - v) + (3/10) * p + (3/10) * t"
    unfolding CalculateTraitConfidence_value v_def p_def t_def
    by (simp only: mult.commute)
  have p: "0 \<le> p" "p \<le> 1"
    using support_score_range by (simp_all add: p_def)
  have t: "0 \<le> t" "t \<le> 1"
    by (simp_all add: t_def)
  have r1: "0 \<le> v \<and> v \<le> 1 \<longrightarrow> 0 \<le> (4/10) * (1 - v) + (3/10) * p + (3/10) * t
      \<and> (4/10) * (1 - v) + (3/10) * p + (3/10) * t \<le> 1"
  proof
    assume "0 \<le> v \<and> v \<le> 1"
    then have "0 \<le> v" "v \<le> 1" by simp_all
    then show "0 \<le> (4/10) * (1 - v) + (3/10) * p + (3/10) * t
      \<and> (4/10) * (1 - v) + (3/10) * p + (3/10) * t \<le> 1"
      using p t by (intro conjI) argo+
  qed
  have r2: "5/2 < v \<longrightarrow> (4/10) * (1 - v) + (3/10) * p + (3/10) * t < 0"
  proof
    assume "5/2 < v"
    then show "(4/10) * (1 - v) + (3/10) * p + (3/10) * t < 0"
      using p t by argo
  qed
  show ?thesis
    using c r1 r2 unfolding v_def p_def t_def by simp
qed

theorem C5_confidence_witness:
  "0 \<le> Volatility (metrics_of ''mood'' manager_steady)
   \<and> Volatility (metrics_of ''mood'' manager_steady) \<le> 1
   \<and> fst (CalculateTraitConfidence ''mood'' manager_steady) = 1/2
   \<and> 5/2 < Volatility (metrics_of ''mood'' manager_volatile)
   \<and> fst (CalculateTraitConfidence ''mood'' manager_volatile) < 0"
proof -
  have v: "Volatility (metrics_of ''mood'' manager_steady) = 1/2"
    by (simp add: metrics_of_def map_index_def manager_steady_def manager_empty_def
        default_TraitEvolutionMetrics_def)
  have l: "LongTermTrend (metrics_of ''mood'' manager_steady) = 0"
    by (simp add: metrics_of_def map_index_def manager_steady_def manager_empty_def
        default_TraitEvolutionMetrics_def)
  have b: "SupportingMemories (baseline_of ''mood'' manager_steady) = []"
    by (simp add: baseline_of_def map_index_def manager_steady_def manager_empty_def
        default_TraitBaseline_def)
  have w: "Volatility (metrics_of ''mood'' manager_volatile) = 3"
    by (simp add: metrics_of_def map_index_def manager_volatile_def manager_empty_def
        default_TraitEvolutionMetrics_def)
  have "fst (CalculateTraitConfidence ''mood'' manager_steady) = 1/2"
    using C5_confidence_is_the_unclamped_weighted_sum [of "''mood''" manager_steady] v l b
    by simp
  moreover have "fst (CalculateTraitConfidence ''mood'' manager_volatile) < 0"
    using C5_confidence_is_the_unclamped_weighted_sum [of "''mood''" manager_volatile] w
    by simp
  ultimately show ?thesis
    using v w by simp
qed

text \<open>
  Claim C5 as stated fails: for a trait with volatility 3, no memory and no trend the code
  returns -0.5, where the clamped sum of the specification is 0.3.
\<close>

theorem C5_confidence_not_clamped:
  "fst (CalculateTraitConfidence ''mood'' manager_volatile) = - (1/2)
   \<and> spec_confidence (Volatility (metrics_of ''mood'' manager_volatile))
        (length (SupportingMemories (baseline_of ''mood'' manager_volatile)))
        (length (ConflictingMemories (baseline_of ''mood'' manager_volatile)))
        (LongTermTrend (metrics_of ''mood'' manager_volatile)) = 3/10"
  by (simp add: CalculateTraitConfidence_def spec_confidence_def clamp01_def metrics_of_def
      baseline_of_def map_index_def manager_volatile_def manager_empty_def
      default_TraitEvolutionMetrics_def default_TraitBaseline_def Let_def)

section \<open>Properties of \<^verbatim>\<open>UpdateMemoryAssociations\<close>\<close>

lemma inner_loop_eq:
  "inner_loop mem1 ms =
     map (make_connection mem1)
       (filter (\<lambda>mem2. fst mem1 < fst mem2 \<and> 3/10 < Strength (make_connection mem1 mem2)) ms)"
  by (induction ms) (auto simp: not_le)

lemma Strength_make_connection:
  "Strength (make_connection mem1 mem2) =
     (traitStrength (snd mem1) (snd mem2) + tagStrength (snd mem1) (snd mem2)) / 2"
  by (simp add: make_connection_def)

text \<open>
  Claim C7, amended. \<^verbatim>\<open>UpdateMemoryAssociations\<close>, on an initialised manager with a
  context, replaces the connection list, whatever it held, by one connection for every
  pair of stored memories whose first key is smaller than the second and whose strength
  exceeds 0.3, in iteration order. The strength is half the sum of (a) the smaller of the
  two influences, over the trait names both memories have, and (b) the number of tags
  both have. The emotional weights play no part.
\<close>

theorem C7_associations_use_min_influence_and_tag_count:
  assumes "is_initialized s" and "\<not> context_not E (default_context s)"
  shows "UpdateMemoryAssociations E s =
      (None,
       s\<lparr>default_context := (default_context s)
          \<lparr>MemoryConnections :=
             concat (map (\<lambda>mem1.
               map (\<lambda>mem2.
                 \<lparr>SourceMemory = fst mem1, TargetMemory = fst mem2,
                  Strength = (traitStrength (snd mem1) (snd mem2) + tagStrength (snd mem1) (snd mem2)) / 2,
                  ConnectionType = [], SharedTraits = []\<rparr>)
               (filter (\<lambda>mem2. fst mem1 < fst mem2
                  \<and> 3/10 < (traitStrength (snd mem1) (snd mem2) + tagStrength (snd mem1) (snd mem2)) / 2)
                  (memories s)))
               (memories s))\<rparr>\<rparr>)"
proof -
  have "(\<lambda>mem1. inner_loop mem1 (memories s)) =
      (\<lambda>mem1.
               map (\<lambda>mem2.
                 \<lparr>SourceMemory = fst mem1, TargetMemory = fst mem2,
                  Strength = (traitStrength (snd mem1) (snd mem2) + tagStrength (snd mem1) (snd mem2)) / 2,
                  ConnectionType = [], SharedTraits = []\<rparr>)
               (filter (\<lambda>mem2. fst mem1 < fst mem2
                  \<and> 3/10 < (traitStrength (snd mem1) (snd mem2) + tagStrength (snd mem1) (snd mem2)) / 2)
                  (memories s)))"
    unfolding inner_loop_eq Strength_make_connection
    by (rule ext) (simp add: make_connection_def)
  then show ?thesis
    using assms by (simp add: UpdateMemoryAssociations_def)
qed

theorem C7_associations_witness:
  "is_initialized manager_AB \<and> \<not> context_not env_ok (default_context manager_AB)
   \<and> MemoryConnections (default_context (snd (UpdateMemoryAssociations env_ok manager_AB))) =
       [\<lparr>SourceMemory = ''A'', TargetMemory = ''B'', Strength = 7/10,
         ConnectionType = [], SharedTraits = []\<rparr>]"
proof -
  have i: "is_initialized manager_AB"
    by (simp add: manager_AB_def manager_empty_def)
  have c: "\<not> context_not env_ok (default_context manager_AB)"
    by (simp add: env_ok_def)
  have s: "traitStrength mem_A mem_B = 4/10" "tagStrength mem_A mem_B = 1"
    by (simp_all add: traitStrength_def tagStrength_def mem_A_def mem_B_def)
  have m: "memories manager_AB = [(''A'', mem_A), (''B'', mem_B)]"
    by (simp add: manager_AB_def)
  show ?thesis
    using C7_associations_use_min_influence_and_tag_count [OF i c] i c
    by (simp add: m s)
qed

text \<open>
  Claim C7 as stated fails: two memories sharing two trait names (influence 0.1 each) have
  strength 0.6 by the specification's formula, above 0.3, and the code records no
  connection for them.
\<close>

theorem C7_shared_traits_without_connection:
  "3/10 < spec_strength mem_P mem_Q
   \<and> fst (UpdateMemoryAssociations env_ok manager_PQ) = None
   \<and> MemoryConnections (default_context (snd (UpdateMemoryAssociations env_ok manager_PQ))) = []"
proof -
  have "spec_strength mem_P mem_Q = 6/10"
    by (simp add: spec_strength_def mem_P_def mem_Q_def)
  moreover have "Strength (make_connection (''P'', mem_P) (''Q'', mem_Q)) = 1/10"
    by (simp add: make_connection_def traitStrength_def tagStrength_def mem_P_def mem_Q_def)
  moreover have "Strength (make_connection (''Q'', mem_Q) (''P'', mem_P)) = 1/10"
    by (simp add: make_connection_def traitStrength_def tagStrength_def mem_P_def mem_Q_def)
  ultimately show ?thesis
    by (simp add: UpdateMemoryAssociations_def manager_PQ_def manager_empty_def env_ok_def)
qed

section \<open>Properties of \<^verbatim>\<open>UpdateCache\<close>\<close>

lemma scan_oldest_spec:
  assumes "oldest < length pre"
    and "last_accessed (snd (pre ! oldest)) = t"
    and "\<forall>j<length pre. t \<le> last_accessed (snd (pre ! j))"
    and "\<forall>j<oldest. t < last_accessed (snd (pre ! j))"
  shows "scan_oldest (length pre) oldest t rest < length (pre @ rest)
    \<and> (\<forall>j<length (pre @ rest).
          last_accessed (snd ((pre @ rest) ! scan_oldest (length pre) oldest t rest))
            \<le> last_accessed (snd ((pre @ rest) ! j)))
    \<and> (\<forall>j<scan_oldest (length pre) oldest t rest.
          last_accessed (snd ((pre @ rest) ! scan_oldest (length pre) oldest t rest))
            < last_accessed (snd ((pre @ rest) ! j)))"
  using assms
proof (induction rest arbitrary: pre oldest t)
  case Nil
  then show ?case by simp
next
  case (Cons entry rest)
  let ?pre = "pre @ [entry]"
  show ?case
  proof (cases "last_accessed (snd entry) < t")
    case True
    have a: "length pre < length ?pre" by simp
    have b: "last_accessed (snd (?pre ! length pre)) = last_accessed (snd entry)" by simp
    have c: "\<forall>j<length ?pre. last_accessed (snd entry) \<le> last_accessed (snd (?pre ! j))"
      using Cons.prems(3) True by (auto simp: nth_append less_Suc_eq)
    have d: "\<forall>j<length pre. last_accessed (snd entry) < last_accessed (snd (?pre ! j))"
      using Cons.prems(3) True by (auto simp: nth_append)
    from Cons.IH [OF a b c d] True show ?thesis by simp
  next
    case False
    have a: "oldest < length ?pre" using Cons.prems(1) by simp
    have b: "last_accessed (snd (?pre ! oldest)) = t"
      using Cons.prems(1,2) by (simp add: nth_append)
    have c: "\<forall>j<length ?pre. t \<le> last_accessed (snd (?pre ! j))"
      using Cons.prems(3) False by (auto simp: nth_append less_Suc_eq)
    have d: "\<forall>j<oldest. t < last_accessed (snd (?pre ! j))"
      using Cons.prems(1,4) by (auto simp: nth_append)
    from Cons.IH [OF a b c d] False show ?thesis by simp
  qed
qed

lemma find_oldest_spec:
  assumes "cache \<noteq> []"
  shows "find_oldest cache < length cache
    \<and> (\<forall>j<length cache. last_accessed (snd (cache ! find_oldest cache))
          \<le> last_accessed (snd (cache ! j)))
    \<and> (\<forall>j<find_oldest cache. last_accessed (snd (cache ! find_oldest cache))
          < last_accessed (snd (cache ! j)))"
proof -
  obtain first rest where c: "cache = first # rest"
    using assms by (cases cache) auto
  have "find_oldest cache = scan_oldest (length [first]) 0 (last_accessed (snd first)) rest"
    by (simp add: find_oldest_def c)
  moreover have "cache = [first] @ rest"
    by (simp add: c)
  ultimately show ?thesis
    using scan_oldest_spec [of 0 "[first]" "last_accessed (snd first)" rest]
    by simp
qed

lemma length_erase_oldest:
  "cache \<noteq> [] \<Longrightarrow> length (erase_oldest cache) = length cache - 1"
  using find_oldest_spec [of cache] by (auto simp: erase_oldest_def erase_at_def)

lemma evict_loop_funpow:
  "evict_loop maxSize cache = (erase_oldest ^^ (length cache - maxSize)) cache"
proof (induction maxSize cache rule: evict_loop.induct)
  case (1 maxSize cache)
  show ?case
  proof (cases "maxSize < length cache")
    case True
    then have ne: "cache \<noteq> []" by auto
    have "length cache - maxSize = Suc (length (erase_oldest cache) - maxSize)"
      using True by (simp add: length_erase_oldest [OF ne])
    then show ?thesis
      using True "1.IH" by (subst evict_loop.simps) (simp add: funpow_swap1)
  next
    case False
    then show ?thesis by (subst evict_loop.simps) simp
  qed
qed

lemma length_evict_loop:
  "length (evict_loop maxSize cache) = min (length cache) maxSize"
proof (induction maxSize cache rule: evict_loop.induct)
  case (1 maxSize cache)
  show ?case
  proof (cases "maxSize < length cache")
    case True
    then have ne: "cache \<noteq> []" by auto
    show ?thesis
      using True "1.IH" by (subst evict_loop.simps) (simp add: length_erase_oldest [OF ne])
  next
    case False
    then show ?thesis by (subst evict_loop.simps) simp
  qed
qed

lemma UpdateCache_idem: "UpdateCache (UpdateCache s) = UpdateCache s"
proof (cases "is_initialized s")
  case True
  have "length (evict_loop (maxCacheSize s) (memory_cache s)) \<le> maxCacheSize s"
    by (simp add: length_evict_loop)
  then have "evict_loop (maxCacheSize s) (evict_loop (maxCacheSize s) (memory_cache s))
      = evict_loop (maxCacheSize s) (memory_cache s)"
    by (subst evict_loop.simps) simp
  then show ?thesis
    using True by (simp add: UpdateCache_def)
next
  case False
  then show ?thesis by (simp add: UpdateCache_def)
qed

text \<open>
  Claim C8. \<^verbatim>\<open>UpdateCache\<close> is idempotent on every state. On an initialised manager it
  removes the oldest entry once for each entry above the capacity, so that the cache ends
  with the smaller of its former size and the capacity. The entry removed from a non-empty
  cache is one whose access time no other entry undercuts, the first such in iteration
  order.
\<close>

theorem C8_UpdateCache_evicts_oldest_and_is_idempotent:
  "UpdateCache (UpdateCache s) = UpdateCache s
   \<and> (is_initialized s \<longrightarrow>
        memory_cache (UpdateCache s) =
          (erase_oldest ^^ (length (memory_cache s) - maxCacheSize s)) (memory_cache s)
        \<and> length (memory_cache (UpdateCache s)) = min (length (memory_cache s)) (maxCacheSize s))
   \<and> (cache \<noteq> [] \<longrightarrow>
        find_oldest cache < length cache
        \<and> erase_oldest cache = take (find_oldest cache) cache @ drop (Suc (find_oldest cache)) cache
        \<and> (\<forall>j<length cache. last_accessed (snd (cache ! find_oldest cache))
              \<le> last_accessed (snd (cache ! j)))
        \<and> (\<forall>j<find_oldest cache. last_accessed (snd (cache ! find_oldest cache))
              < last_accessed (snd (cache ! j))))"
proof (intro conjI impI)
  show "UpdateCache (UpdateCache s) = UpdateCache s"
    by (rule UpdateCache_idem)
next
  assume "is_initialized s"
  then show "memory_cache (UpdateCache s) =
          (erase_oldest ^^ (length (memory_cache s) - maxCacheSize s)) (memory_cache s)"
    by (simp add: UpdateCache_def evict_loop_funpow)
next
  assume "is_initialized s"
  then show "length (memory_cache (UpdateCache s)) = min (length (memory_cache s)) (maxCacheSize s)"
    by (simp add: UpdateCache_def length_evict_loop)
next
  assume "cache \<noteq> []"
  then show "find_oldest cache < length cache"
    using find_oldest_spec by blast
next
  show "erase_oldest cache = take (find_oldest cache) cache @ drop (Suc (find_oldest cache)) cache"
    by (simp add: erase_oldest_def erase_at_def)
next
  assume "cache \<noteq> []"
  then show "\<forall>j<length cache. last_accessed (snd (cache ! find_oldest cache))
              \<le> last_accessed (snd (cache ! j))"
    using find_oldest_spec by blast
next
  assume "cache \<noteq> []"
  then show "\<forall>j<find_oldest cache. last_accessed (snd (cache ! find_oldest cache))
              < last_accessed (snd (cache ! j))"
    using find_oldest_spec by blast
qed

theorem C8_UpdateCache_witness:
  "is_initialized manager_cache3
   \<and> memory_cache manager_cache3 \<noteq> []
   \<and> find_oldest (memory_cache manager_cache3) = 1
   \<and> memory_cache (UpdateCache manager_cache3) =
       [(''a'', \<lparr>last_accessed = 30\<rparr>), (''c'', \<lparr>last_accessed = 20\<rparr>)]
   \<and> UpdateCache (UpdateCache manager_cache3) = UpdateCache manager_cache3"
proof -
  have i: "is_initialized manager_cache3"
    by (simp add: manager_cache3_def manager_empty_def)
  have c: "memory_cache manager_cache3 =
      [(''a'', \<lparr>last_accessed = 30\<rparr>), (''b'', \<lparr>last_accessed = 10\<rparr>), (''c'', \<lparr>last_accessed = 20\<rparr>)]"
    by (simp add: manager_cache3_def)
  have m: "maxCacheSize manager_cache3 = 2"
    by (simp add: manager_cache3_def manager_empty_def)
  have f: "find_oldest (memory_cache manager_cache3) = 1"
    by (simp add: c find_oldest_def)
  note t = C8_UpdateCache_evicts_oldest_and_is_idempotent
    [of manager_cache3 "memory_cache manager_cache3"]
  have e: "erase_oldest (memory_cache manager_cache3) =
      [(''a'', \<lparr>last_accessed = 30\<rparr>), (''c'', \<lparr>last_accessed = 20\<rparr>)]"
    using t f by (simp add: c)
  have "memory_cache (UpdateCache manager_cache3) = erase_oldest (memory_cache manager_cache3)"
    using t i by (simp add: c m)
  then show ?thesis
    using t i f e by (simp add: c)
qed

section \<open>Properties of \<^verbatim>\<open>UpdateTrait\<close> and its propagation\<close>

lemma map_of_map_assign: "map_of (map_assign k v m) = (map_of m)(k \<mapsto> v)"
  by (induction m) (auto simp: fun_upd_twist)

lemma propagate_loop_no_match:
  "\<forall>entry\<in>set table. \<not> contains (fst entry) traitName \<Longrightarrow>
     propagate_loop call traitName influence table s = Some (Inr s)"
  by (induction table) auto

lemma UpdateTrait_chain:
  "UpdateTrait (Suc (Suc (Suc (Suc fuel)))) now ''x'' amount evidence (chain_system tx ty tz c1 c2) =
     Some (Inr
       \<lparr>activePersona = Some
          \<lparr>ID = ''p'',
           Personality =
             \<lparr>CoreTraits =
                [(''x'', apply_influence now amount evidence tx),
                 (''yy'', apply_influence now (amount * c1) ''correlated_trait'' ty),
                 (''zzz'', apply_influence now (amount * c1 * c2) ''correlated_trait'' tz)],
              DerivedTraits = [],
              TraitCorrelations = [(''x_yy'', c1), (''yy_zzz'', c2)]\<rparr>\<rparr>,
        saved_traits =
          [(''p'', ''x'', amount, 8/10),
           (''p'', ''yy'', amount * c1, 8/10),
           (''p'', ''y'', amount * c1 * c1, 8/10),
           (''p'', ''zzz'', amount * c1 * c2, 8/10),
           (''p'', ''zz'', amount * c1 * c2 * c2, 8/10)]\<rparr>)"
  by (simp add: chain_system_def PropagateTraitInfluence_with_def)

lemma UpdateTrait_b_never_returns:
  "UpdateTrait fuel now ''b'' influence evidence (pair_system ta tb c saved) = None"
proof (induction fuel arbitrary: influence evidence tb saved)
  case 0
  show ?case by simp
next
  case (Suc fuel)
  have "UpdateTrait (Suc fuel) now ''b'' influence evidence (pair_system ta tb c saved) =
      UpdateTrait fuel now ''b'' (influence * c) ''correlated_trait''
        (pair_system ta (apply_influence now influence evidence tb) c
           (saved @ [(''p'', ''b'', influence, 8/10)]))"
    by (simp add: pair_system_def PropagateTraitInfluence_with_def split: option.splits sum.splits)
  then show ?case
    by (simp only: Suc.IH)
qed

lemma UpdateTrait_a_never_returns:
  "UpdateTrait fuel now ''a'' influence evidence (pair_system ta tb c saved) = None"
proof (cases fuel)
  case 0
  then show ?thesis by simp
next
  case (Suc n)
  have "UpdateTrait (Suc n) now ''a'' influence evidence (pair_system ta tb c saved) =
      (case UpdateTrait n now ''b'' (influence * c) ''correlated_trait''
        (pair_system (apply_influence now influence evidence ta) tb c
           (saved @ [(''p'', ''a'', influence, 8/10)])) of
         None \<Rightarrow> None | Some (Inl e) \<Rightarrow> Some (Inl e) | Some (Inr s') \<Rightarrow> Some (Inr s'))"
    by (simp add: pair_system_def PropagateTraitInfluence_with_def split: option.splits sum.splits)
  then show ?thesis
    by (simp add: Suc UpdateTrait_b_never_returns)
qed

text \<open>At concrete values: the trait \<open>zzz\<close>, two hops from \<open>x\<close>, moves from 0.5 to 0.525.\<close>

lemma chain_two_hop_example:
  "map_option (map_sum id (\<lambda>s'. map_option CurrentValue (trait_of s' ''zzz'')))
     (UpdateTrait 4 0 ''x'' (1/10) ''praise''
        (chain_system (plain_trait 1) (plain_trait 1) (plain_trait 1) (1/2) (1/2)))
     = Some (Inr (Some (21/40)))
   \<and> map_option CurrentValue
       (trait_of (chain_system (plain_trait 1) (plain_trait 1) (plain_trait 1) (1/2) (1/2)) ''zzz'')
     = Some (1/2)"
proof -
  have h: "hours_between 0 0 = 0"
    by (simp add: hours_between_def)
  have f: "(4::nat) = Suc (Suc (Suc (Suc 0)))"
    by simp
  have a: "map_option (map_sum id (\<lambda>s'. map_option CurrentValue (trait_of s' ''zzz'')))
     (UpdateTrait 4 0 ''x'' (1/10) ''praise''
        (chain_system (plain_trait 1) (plain_trait 1) (plain_trait 1) (1/2) (1/2)))
     = Some (Inr (Some (21/40)))"
    unfolding f UpdateTrait_chain
    by (simp add: trait_of_def apply_influence_def plain_trait_def h)
  have b: "map_option CurrentValue
       (trait_of (chain_system (plain_trait 1) (plain_trait 1) (plain_trait 1) (1/2) (1/2)) ''zzz'')
     = Some (1/2)"
    by (simp add: trait_of_def chain_system_def plain_trait_def)
  from a b show ?thesis by simp
qed

text \<open>
  Claim C4. Propagation is to be single-hop: the correlated trait receives one secondary
  influence and nothing further happens. In the code the secondary influence is a full
  \<^verbatim>\<open>UpdateTrait\<close>, which propagates again. With the two traits \<open>a\<close> and \<open>b\<close> and the one
  correlation \<open>a_b\<close>, influencing \<open>a\<close> does not return at any depth: the update of \<open>b\<close>
  finds \<open>b\<close> in the key \<open>a_b\<close>, cuts the key to \<open>b\<close> and updates \<open>b\<close> again. With the
  table \<open>x_yy\<close>, \<open>yy_zzz\<close> the call returns, and \<open>zzz\<close>, two hops from \<open>x\<close>, has received
  the amount times both correlations.
\<close>

theorem C4_propagation_recurses_without_bound:
  "UpdateTrait fuel now ''a'' amount evidence (pair_system ta tb c saved) = None
   \<and> UpdateTrait (Suc (Suc (Suc (Suc fuel)))) now ''x'' amount evidence (chain_system tx ty tz c1 c2) =
     Some (Inr
       \<lparr>activePersona = Some
          \<lparr>ID = ''p'',
           Personality =
             \<lparr>CoreTraits =
                [(''x'', apply_influence now amount evidence tx),
                 (''yy'', apply_influence now (amount * c1) ''correlated_trait'' ty),
                 (''zzz'', apply_influence now (amount * c1 * c2) ''correlated_trait'' tz)],
              DerivedTraits = [],
              TraitCorrelations = [(''x_yy'', c1), (''yy_zzz'', c2)]\<rparr>\<rparr>,
        saved_traits =
          [(''p'', ''x'', amount, 8/10),
           (''p'', ''yy'', amount * c1, 8/10),
           (''p'', ''y'', amount * c1 * c1, 8/10),
           (''p'', ''zzz'', amount * c1 * c2, 8/10),
           (''p'', ''zz'', amount * c1 * c2 * c2, 8/10)]\<rparr>)"
  using UpdateTrait_a_never_returns UpdateTrait_chain by blast

lemma UpdateTrait_core:
  assumes "activePersona s = Some persona"
    and "\<forall>entry\<in>set (TraitCorrelations (Personality persona)). \<not> contains (fst entry) traitName"
    and "map_of (CoreTraits (Personality persona)) traitName = Some trait"
  shows "UpdateTrait (Suc fuel) now traitName influence evidence s =
    Some (Inr \<lparr>activePersona = Some (persona\<lparr>Personality := (Personality persona)
                  \<lparr>CoreTraits := map_assign traitName (apply_influence now influence evidence trait)
                      (CoreTraits (Personality persona))\<rparr>\<rparr>),
               saved_traits = saved_traits s @ [(ID persona, traitName, influence, 8/10)]\<rparr>)"
  using assms
  by (simp add: PropagateTraitInfluence_with_def propagate_loop_no_match Let_def)

lemma UpdateTrait_derived:
  assumes "activePersona s = Some persona"
    and "\<forall>entry\<in>set (TraitCorrelations (Personality persona)). \<not> contains (fst entry) traitName"
    and "map_of (CoreTraits (Personality persona)) traitName = None"
    and "map_of (DerivedTraits (Personality persona)) traitName = Some trait"
  shows "UpdateTrait (Suc fuel) now traitName influence evidence s =
    Some (Inr \<lparr>activePersona = Some (persona\<lparr>Personality := (Personality persona)
                  \<lparr>DerivedTraits := map_assign traitName (apply_influence now influence evidence trait)
                      (DerivedTraits (Personality persona))\<rparr>\<rparr>),
               saved_traits = saved_traits s @ [(ID persona, traitName, influence, 8/10)]\<rparr>)"
  using assms
  by (simp add: PropagateTraitInfluence_with_def propagate_loop_no_match Let_def)

lemma UpdateTrait_unseen:
  assumes "activePersona s = Some persona"
    and "trait_of s traitName = None"
  shows "UpdateTrait (Suc fuel) now traitName influence evidence s =
    Some (Inr (s\<lparr>saved_traits := saved_traits s @ [(ID persona, traitName, influence, 8/10)]\<rparr>))"
  using assms
  by (auto simp: trait_of_def split: option.splits)

lemma UpdateTrait_seen:
  assumes "activePersona s = Some persona"
    and "\<forall>entry\<in>set (TraitCorrelations (Personality persona)). \<not> contains (fst entry) traitName"
    and "trait_of s traitName = Some trait"
  shows "\<exists>s'. UpdateTrait (Suc fuel) now traitName influence evidence s = Some (Inr s')
     \<and> trait_of s' traitName = Some (apply_influence now influence evidence trait)
     \<and> (\<forall>other. other \<noteq> traitName \<longrightarrow> trait_of s' other = trait_of s other)
     \<and> saved_traits s' = saved_traits s @ [(ID persona, traitName, influence, 8/10)]"
proof (cases "map_of (CoreTraits (Personality persona)) traitName")
  case None
  then have d: "map_of (DerivedTraits (Personality persona)) traitName = Some trait"
    using assms(1,3) by (simp add: trait_of_def)
  show ?thesis
    unfolding UpdateTrait_derived [OF assms(1,2) None d]
    using assms(1) None by (auto simp: trait_of_def map_of_map_assign split: option.splits)
next
  case (Some t)
  then have t: "t = trait"
    using assms(1,3) by (simp add: trait_of_def)
  show ?thesis
    unfolding UpdateTrait_core [OF assms(1,2) Some]
    using assms(1) Some t by (auto simp: trait_of_def map_of_map_assign split: option.splits)
qed

lemma first_step_core:
  assumes "activePersona s = Some persona"
    and "map_of (CoreTraits (Personality persona)) traitName = Some trait"
  shows "UpdateTrait (Suc fuel) now traitName influence evidence s =
          PropagateTraitInfluence fuel now traitName influence
            \<lparr>activePersona = Some (persona\<lparr>Personality := (Personality persona)
                 \<lparr>CoreTraits := map_assign traitName (apply_influence now influence evidence trait)
                     (CoreTraits (Personality persona))\<rparr>\<rparr>),
             saved_traits = saved_traits s @ [(ID persona, traitName, influence, 8/10)]\<rparr>"
  using assms by (simp add: PropagateTraitInfluence_def Let_def)

lemma first_step_derived:
  assumes "activePersona s = Some persona"
    and "map_of (CoreTraits (Personality persona)) traitName = None"
    and "map_of (DerivedTraits (Personality persona)) traitName = Some trait"
  shows "UpdateTrait (Suc fuel) now traitName influence evidence s =
          PropagateTraitInfluence fuel now traitName influence
            \<lparr>activePersona = Some (persona\<lparr>Personality := (Personality persona)
                 \<lparr>DerivedTraits := map_assign traitName (apply_influence now influence evidence trait)
                     (DerivedTraits (Personality persona))\<rparr>\<rparr>),
             saved_traits = saved_traits s @ [(ID persona, traitName, influence, 8/10)]\<rparr>"
  using assms by (simp add: PropagateTraitInfluence_def Let_def)

lemma hours_48: "hours_between 172800 0 = 48"
  by (simp add: hours_between_def signed_divide_int_def)

text \<open>
  Claim C3, amended. With an active persona, \<^verbatim>\<open>UpdateTrait\<close> on a trait that the persona
  has (a core trait, else a derived one) first replaces the trait's record: the current
  value is multiplied by \<open>exp (- DecayRate * days)\<close>, the days being the whole hours since
  the last update divided by 24; the influence times the trait's reinforcement rate is
  added; the sum is clamped to the unit interval; the evidence is appended and the
  timestamp set to \<open>now\<close>. It then runs \<^verbatim>\<open>PropagateTraitInfluence\<close> on the state so changed.
  When no correlation key contains the name, the call returns that state, no other trait
  changed. For a name that is neither a core nor a derived trait it returns having only
  recorded the database call: no trait is created.
\<close>

theorem C3_UpdateTrait_decays_adds_scaled_influence_clamps:
  assumes "activePersona s = Some persona"
  shows "apply_influence now influence evidence trait =
        trait
          \<lparr>CurrentValue := min 1 (max 0
             (CurrentValue trait
                * exp (- DecayRate trait * (real_of_int (hours_between now (LastUpdated trait)) / 24))
              + influence * ReinforcementRate trait)),
           Evidence := Evidence trait @ [evidence],
           LastUpdated := now\<rparr>
    \<and> (map_of (CoreTraits (Personality persona)) traitName = Some trait \<longrightarrow>
        UpdateTrait (Suc fuel) now traitName influence evidence s =
          PropagateTraitInfluence fuel now traitName influence
            \<lparr>activePersona = Some (persona\<lparr>Personality := (Personality persona)
                 \<lparr>CoreTraits := map_assign traitName (apply_influence now influence evidence trait)
                     (CoreTraits (Personality persona))\<rparr>\<rparr>),
             saved_traits = saved_traits s @ [(ID persona, traitName, influence, 8/10)]\<rparr>)
    \<and> (map_of (CoreTraits (Personality persona)) traitName = None
        \<and> map_of (DerivedTraits (Personality persona)) traitName = Some trait \<longrightarrow>
        UpdateTrait (Suc fuel) now traitName influence evidence s =
          PropagateTraitInfluence fuel now traitName influence
            \<lparr>activePersona = Some (persona\<lparr>Personality := (Personality persona)
                 \<lparr>DerivedTraits := map_assign traitName (apply_influence now influence evidence trait)
                     (DerivedTraits (Personality persona))\<rparr>\<rparr>),
             saved_traits = saved_traits s @ [(ID persona, traitName, influence, 8/10)]\<rparr>)
    \<and> (trait_of s traitName = Some trait
        \<and> list_all (\<lambda>entry. \<not> contains (fst entry) traitName)
              (TraitCorrelations (Personality persona)) \<longrightarrow>
        (\<exists>s'. UpdateTrait (Suc fuel) now traitName influence evidence s = Some (Inr s')
           \<and> trait_of s' traitName = Some (apply_influence now influence evidence trait)
           \<and> (\<forall>other. other \<noteq> traitName \<longrightarrow> trait_of s' other = trait_of s other)))
    \<and> (trait_of s traitName = None \<longrightarrow>
        UpdateTrait (Suc fuel) now traitName influence evidence s =
          Some (Inr (s\<lparr>saved_traits := saved_traits s @ [(ID persona, traitName, influence, 8/10)]\<rparr>)))"
proof (intro conjI impI)
  show "apply_influence now influence evidence trait =
        trait
          \<lparr>CurrentValue := min 1 (max 0
             (CurrentValue trait
                * exp (- DecayRate trait * (real_of_int (hours_between now (LastUpdated trait)) / 24))
              + influence * ReinforcementRate trait)),
           Evidence := Evidence trait @ [evidence],
           LastUpdated := now\<rparr>"
    by (simp add: apply_influence_def Let_def)
next
  assume "map_of (CoreTraits (Personality persona)) traitName = Some trait"
  with assms show "UpdateTrait (Suc fuel) now traitName influence evidence s =
          PropagateTraitInfluence fuel now traitName influence
            \<lparr>activePersona = Some (persona\<lparr>Personality := (Personality persona)
                 \<lparr>CoreTraits := map_assign traitName (apply_influence now influence evidence trait)
                     (CoreTraits (Personality persona))\<rparr>\<rparr>),
             saved_traits = saved_traits s @ [(ID persona, traitName, influence, 8/10)]\<rparr>"
    by (rule first_step_core)
next
  assume "map_of (CoreTraits (Personality persona)) traitName = None
        \<and> map_of (DerivedTraits (Personality persona)) traitName = Some trait"
  then have n: "map_of (CoreTraits (Personality persona)) traitName = None"
    and d: "map_of (DerivedTraits (Personality persona)) traitName = Some trait"
    by simp_all
  from assms n d show "UpdateTrait (Suc fuel) now traitName influence evidence s =
          PropagateTraitInfluence fuel now traitName influence
            \<lparr>activePersona = Some (persona\<lparr>Personality := (Personality persona)
                 \<lparr>DerivedTraits := map_assign traitName (apply_influence now influence evidence trait)
                     (DerivedTraits (Personality persona))\<rparr>\<rparr>),
             saved_traits = saved_traits s @ [(ID persona, traitName, influence, 8/10)]\<rparr>"
    by (rule first_step_derived)
next
  assume "trait_of s traitName = Some trait
        \<and> list_all (\<lambda>entry. \<not> contains (fst entry) traitName)
              (TraitCorrelations (Personality persona))"
  then have t: "trait_of s traitName = Some trait"
    and n: "\<forall>entry\<in>set (TraitCorrelations (Personality persona)). \<not> contains (fst entry) traitName"
    by (simp_all add: list_all_iff)
  from UpdateTrait_seen [OF assms n t, of fuel now influence evidence]
  show "\<exists>s'. UpdateTrait (Suc fuel) now traitName influence evidence s = Some (Inr s')
           \<and> trait_of s' traitName = Some (apply_influence now influence evidence trait)
           \<and> (\<forall>other. other \<noteq> traitName \<longrightarrow> trait_of s' other = trait_of s other)"
    by blast
next
  assume "trait_of s traitName = None"
  with assms show "UpdateTrait (Suc fuel) now traitName influence evidence s =
          Some (Inr (s\<lparr>saved_traits := saved_traits s @ [(ID persona, traitName, influence, 8/10)]\<rparr>))"
    by (rule UpdateTrait_unseen)
qed

theorem C3_UpdateTrait_witness:
  "activePersona teaser_system = Some teaser_persona
   \<and> map_of (CoreTraits (Personality teaser_persona)) ''clinginess'' = Some clinginess_trait
   \<and> map_option (map_sum id (\<lambda>s'. map_option CurrentValue (trait_of s' ''clinginess'')))
       (UpdateTrait 3 172800 ''clinginess'' (1/2) ''negative_mood'' teaser_system)
       = Some (Inr (Some (7/10 * exp (- (1/25)) + 1/10)))
   \<and> map_of (CoreTraits (Personality teaser_persona)) ''flirtiness'' = None
   \<and> map_of (DerivedTraits (Personality teaser_persona)) ''flirtiness'' = Some flirtiness_trait
   \<and> map_option (map_sum id (\<lambda>s'. map_option CurrentValue (trait_of s' ''flirtiness'')))
       (UpdateTrait 3 172800 ''flirtiness'' 4 ''flirty_reply'' teaser_system)
       = Some (Inr (Some 1))
   \<and> trait_of teaser_system ''poise'' = None
   \<and> UpdateTrait (Suc 0) 172800 ''poise'' (1/2) ''praise'' teaser_system =
       Some (Inr (teaser_system\<lparr>saved_traits := [(''sapphic_teaser'', ''poise'', 1/2, 8/10)]\<rparr>))
   \<and> activePersona calm_system = Some calm_persona
   \<and> trait_of calm_system ''calm'' = Some (plain_trait (2/10))
   \<and> list_all (\<lambda>entry. \<not> contains (fst entry) ''calm'')
         (TraitCorrelations (Personality calm_persona))
   \<and> (\<exists>s'. UpdateTrait (Suc 0) 172800 ''calm'' (1/2) ''praise'' calm_system = Some (Inr s')
        \<and> map_option CurrentValue (trait_of s' ''calm'') = Some (6/10))"
proof -
  have a: "activePersona teaser_system = Some teaser_persona"
    by (simp add: teaser_system_def)
  have c: "map_of (CoreTraits (Personality teaser_persona)) ''clinginess'' = Some clinginess_trait"
    by (simp add: teaser_persona_def)
  have fn: "map_of (CoreTraits (Personality teaser_persona)) ''flirtiness'' = None"
    by (simp add: teaser_persona_def)
  have fd: "map_of (DerivedTraits (Personality teaser_persona)) ''flirtiness'' = Some flirtiness_trait"
    by (simp add: teaser_persona_def)
  have u: "trait_of teaser_system ''poise'' = None"
    by (simp add: trait_of_def teaser_system_def teaser_persona_def)
  have b: "activePersona calm_system = Some calm_persona"
    by (simp add: calm_system_def)
  have t: "trait_of calm_system ''calm'' = Some (plain_trait (2/10))"
    by (simp add: trait_of_def calm_system_def calm_persona_def)
  have n: "list_all (\<lambda>entry. \<not> contains (fst entry) ''calm'')
         (TraitCorrelations (Personality calm_persona))"
    by (simp add: calm_persona_def)
  have three: "(3::nat) = Suc (Suc (Suc 0))"
    by simp
  have vc: "CurrentValue (apply_influence 172800 (1/2) ''negative_mood'' clinginess_trait)
     = 7/10 * exp (- (1/25)) + 1/10"
  proof -
    have "exp (- (1/25) :: real) \<le> 1" by simp
    then have "7/10 * exp (- (1/25) :: real) + 1/10 \<le> 1" by argo
    moreover have "0 \<le> 7/10 * exp (- (1/25) :: real) + 1/10"
      by (simp add: add_nonneg_nonneg)
    ultimately show ?thesis
      by (simp add: apply_influence_def clinginess_trait_def initial_trait_def hours_48 Let_def)
  qed
  have vf: "CurrentValue (apply_influence 172800 4 ''flirty_reply'' flirtiness_trait) = 1"
  proof -
    have "1 \<le> 6/10 * exp (- (3/50) :: real) + 1" by simp
    then show ?thesis
      by (simp add: apply_influence_def flirtiness_trait_def initial_trait_def hours_48 Let_def)
  qed
  have vk: "CurrentValue (apply_influence 172800 (1/2) ''praise'' (plain_trait (2/10))) = 6/10"
    by (simp add: apply_influence_def plain_trait_def hours_48 Let_def)
  note T = C3_UpdateTrait_decays_adds_scaled_influence_clamps
  from T [OF a, where traitName = "''clinginess''" and trait = clinginess_trait and fuel = "Suc (Suc 0)"
      and now = 172800 and influence = "1/2" and evidence = "''negative_mood''"] c
  have "UpdateTrait 3 172800 ''clinginess'' (1/2) ''negative_mood'' teaser_system =
      PropagateTraitInfluence (Suc (Suc 0)) 172800 ''clinginess'' (1/2)
        \<lparr>activePersona = Some (teaser_persona\<lparr>Personality := (Personality teaser_persona)
             \<lparr>CoreTraits := map_assign ''clinginess''
                 (apply_influence 172800 (1/2) ''negative_mood'' clinginess_trait)
                 (CoreTraits (Personality teaser_persona))\<rparr>\<rparr>),
         saved_traits = saved_traits teaser_system @ [(ID teaser_persona, ''clinginess'', 1/2, 8/10)]\<rparr>"
    unfolding three by blast
  then have 1: "map_option (map_sum id (\<lambda>s'. map_option CurrentValue (trait_of s' ''clinginess'')))
       (UpdateTrait 3 172800 ''clinginess'' (1/2) ''negative_mood'' teaser_system)
       = Some (Inr (Some (7/10 * exp (- (1/25)) + 1/10)))"
    by (simp add: PropagateTraitInfluence_def PropagateTraitInfluence_with_def teaser_system_def
        teaser_persona_def teaser_table_def trait_of_def vc)
  from T [OF a, where traitName = "''flirtiness''" and trait = flirtiness_trait and fuel = "Suc (Suc 0)"
      and now = 172800 and influence = 4 and evidence = "''flirty_reply''"] fn fd
  have "UpdateTrait 3 172800 ''flirtiness'' 4 ''flirty_reply'' teaser_system =
      PropagateTraitInfluence (Suc (Suc 0)) 172800 ''flirtiness'' 4
        \<lparr>activePersona = Some (teaser_persona\<lparr>Personality := (Personality teaser_persona)
             \<lparr>DerivedTraits := map_assign ''flirtiness''
                 (apply_influence 172800 4 ''flirty_reply'' flirtiness_trait)
                 (DerivedTraits (Personality teaser_persona))\<rparr>\<rparr>),
         saved_traits = saved_traits teaser_system @ [(ID teaser_persona, ''flirtiness'', 4, 8/10)]\<rparr>"
    unfolding three by blast
  then have 2: "map_option (map_sum id (\<lambda>s'. map_option CurrentValue (trait_of s' ''flirtiness'')))
       (UpdateTrait 3 172800 ''flirtiness'' 4 ''flirty_reply'' teaser_system)
       = Some (Inr (Some 1))"
    by (simp add: PropagateTraitInfluence_def PropagateTraitInfluence_with_def teaser_system_def
        teaser_persona_def teaser_table_def trait_of_def vf)
  have e: "saved_traits teaser_system @ [(ID teaser_persona, ''poise'', 1/2, 8/10)]
      = [(''sapphic_teaser'', ''poise'', 1/2, 8/10)]"
    by (simp add: teaser_system_def teaser_persona_def)
  from T [OF a, where traitName = "''poise''" and trait = clinginess_trait and fuel = 0
      and now = 172800 and influence = "1/2" and evidence = "''praise''"] u
  have "UpdateTrait (Suc 0) 172800 ''poise'' (1/2) ''praise'' teaser_system =
       Some (Inr (teaser_system\<lparr>saved_traits :=
         saved_traits teaser_system @ [(ID teaser_persona, ''poise'', 1/2, 8/10)]\<rparr>))"
    by blast
  then have 3: "UpdateTrait (Suc 0) 172800 ''poise'' (1/2) ''praise'' teaser_system =
       Some (Inr (teaser_system\<lparr>saved_traits := [(''sapphic_teaser'', ''poise'', 1/2, 8/10)]\<rparr>))"
    by (simp only: e)
  from T [OF b, where traitName = "''calm''" and trait = "plain_trait (2/10)" and fuel = 0
      and now = 172800 and influence = "1/2" and evidence = "''praise''"] t n
  obtain s' where q: "UpdateTrait (Suc 0) 172800 ''calm'' (1/2) ''praise'' calm_system = Some (Inr s')"
    and r: "trait_of s' ''calm'' = Some (apply_influence 172800 (1/2) ''praise'' (plain_trait (2/10)))"
    by blast
  from r vk have "map_option CurrentValue (trait_of s' ''calm'') = Some (6/10)"
    by simp
  with q have 4: "\<exists>s'. UpdateTrait (Suc 0) 172800 ''calm'' (1/2) ''praise'' calm_system = Some (Inr s')
        \<and> map_option CurrentValue (trait_of s' ''calm'') = Some (6/10)"
    by blast
  from a c 1 fn fd 2 u 3 b t n 4 show ?thesis
    by blast
qed

text \<open>
  Claim C3 as stated fails: on a trait at 0.5 with reinforcement rate 0.2 and no decay, an
  amount of 0.5 gives 0.6, where decay, plus the amount, clamped, is 1; and an unseen
  trait name is still absent after the call.
\<close>

theorem C3_influence_is_scaled_and_unseen_trait_not_created:
  "map_option (map_sum id (\<lambda>s'. map_option CurrentValue (trait_of s' ''calm'')))
     (UpdateTrait 1 0 ''calm'' (1/2) ''praise'' calm_system) = Some (Inr (Some (6/10)))
   \<and> spec_influence_value (1/2) 0 0 (1/2) = 1
   \<and> map_option (map_sum id (\<lambda>s'. trait_of s' ''poise''))
       (UpdateTrait 1 0 ''poise'' (1/2) ''praise'' calm_system) = Some (Inr None)"
proof -
  have h: "hours_between 0 0 = 0"
    by (simp add: hours_between_def)
  have a: "map_option (map_sum id (\<lambda>s'. map_option CurrentValue (trait_of s' ''calm'')))
     (UpdateTrait 1 0 ''calm'' (1/2) ''praise'' calm_system) = Some (Inr (Some (6/10)))"
    by (simp add: calm_system_def calm_persona_def PropagateTraitInfluence_with_def trait_of_def
        apply_influence_def plain_trait_def h)
  have b: "spec_influence_value (1/2) 0 0 (1/2) = 1"
    by (simp add: spec_influence_value_def clamp01_def)
  have c: "map_option (map_sum id (\<lambda>s'. trait_of s' ''poise''))
       (UpdateTrait 1 0 ''poise'' (1/2) ''praise'' calm_system) = Some (Inr None)"
    by (simp add: calm_system_def calm_persona_def trait_of_def)
  from a b c show ?thesis by simp
qed

section \<open>The clamp of \<^verbatim>\<open>PersonaSystem::UpdateTrait\<close>, absent from \<^verbatim>\<open>UpdateTraitBaseline\<close>\<close>

text \<open>Trait values of the persona stay in the unit interval through every returning
  sequence of \<^verbatim>\<open>UpdateTrait\<close> calls, secondary updates included, because each update clamps.
  \<^verbatim>\<open>MemoryManager::UpdateTraitBaseline\<close> performs the same kind of update with no clamp: the
  baseline's value afterwards is the former value plus the influence, whatever they are.\<close>

lemma set_map_assign: "set (map_assign k v m) \<subseteq> insert (k, v) (set m)"
  by (induction m) (auto split: if_splits)

lemma apply_influence_range:
  "0 \<le> CurrentValue (apply_influence now influence evidence trait)
   \<and> CurrentValue (apply_influence now influence evidence trait) \<le> 1"
  by (simp add: apply_influence_def Let_def)

lemma list_all_map_assign:
  assumes "list_all P m" and "P (k, v)"
  shows "list_all P (map_assign k v m)"
  using assms set_map_assign [of k v m] by (auto simp: list_all_iff)

lemma propagate_loop_inv:
  assumes "\<And>name infl ev s s'. call name infl ev s = Some (Inr s') \<Longrightarrow> traits_in_range s
      \<Longrightarrow> traits_in_range s'"
    and "propagate_loop call traitName influence table s = Some (Inr s')"
    and "traits_in_range s"
  shows "traits_in_range s'"
  using assms(2,3)
proof (induction table arbitrary: s)
  case Nil
  then show ?case by simp
next
  case (Cons entry rest)
  show ?case
  proof (cases "contains (fst entry) traitName")
    case False
    with Cons show ?thesis by simp
  next
    case True
    with Cons.prems(1) have len: "\<not> length traitName + 1 > length (fst entry)"
      by (auto split: if_splits)
    from Cons.prems(1) True len obtain s1 where
      c: "call (drop (length traitName + 1) (fst entry)) (influence * snd entry) ''correlated_trait'' s
            = Some (Inr s1)"
      and r: "propagate_loop call traitName influence rest s1 = Some (Inr s')"
      by (auto split: option.splits sum.splits)
    from assms(1) [OF c Cons.prems(2)] have "traits_in_range s1" .
    with Cons.IH [OF r] show ?thesis .
  qed
qed

lemma UpdateTrait_inv:
  "UpdateTrait fuel now traitName influence evidence s = Some (Inr s') \<Longrightarrow> traits_in_range s
     \<Longrightarrow> traits_in_range s'"
proof (induction fuel arbitrary: traitName influence evidence s s')
  case 0
  then show ?case by simp
next
  case (Suc fuel)
  from Suc.prems(1) obtain persona where p: "activePersona s = Some persona"
    by (auto split: option.splits)
  let ?saved = "saved_traits s @ [(ID persona, traitName, influence, 8/10)]"
  from Suc.prems(2) p have
    rc: "list_all (\<lambda>entry. 0 \<le> CurrentValue (snd entry) \<and> CurrentValue (snd entry) \<le> 1)
          (CoreTraits (Personality persona))"
    and rd: "list_all (\<lambda>entry. 0 \<le> CurrentValue (snd entry) \<and> CurrentValue (snd entry) \<le> 1)
          (DerivedTraits (Personality persona))"
    by (simp_all add: traits_in_range_def)
  have step: "\<And>name infl ev s s'. UpdateTrait fuel now name infl ev s = Some (Inr s')
      \<Longrightarrow> traits_in_range s \<Longrightarrow> traits_in_range s'"
    using Suc.IH by blast
  show ?case
  proof (cases "map_of (CoreTraits (Personality persona)) traitName")
    case (Some trait)
    let ?s1 = "\<lparr>activePersona = Some (persona\<lparr>Personality := (Personality persona)
                  \<lparr>CoreTraits := map_assign traitName (apply_influence now influence evidence trait)
                      (CoreTraits (Personality persona))\<rparr>\<rparr>),
               saved_traits = ?saved\<rparr>"
    have r1: "traits_in_range ?s1"
      using rc rd apply_influence_range [of now influence evidence trait]
      by (simp add: traits_in_range_def list_all_map_assign)
    from Suc.prems(1) p Some have
      "PropagateTraitInfluence_with (UpdateTrait fuel now) traitName influence ?s1 = Some (Inr s')"
      by (simp add: Let_def)
    then have "propagate_loop (UpdateTrait fuel now) traitName influence
        (TraitCorrelations (Personality persona)) ?s1 = Some (Inr s')"
      by (simp add: PropagateTraitInfluence_with_def)
    from propagate_loop_inv [OF step this r1] show ?thesis .
  next
    case None
    show ?thesis
    proof (cases "map_of (DerivedTraits (Personality persona)) traitName")
      case (Some trait)
      let ?s1 = "\<lparr>activePersona = Some (persona\<lparr>Personality := (Personality persona)
                  \<lparr>DerivedTraits := map_assign traitName (apply_influence now influence evidence trait)
                      (DerivedTraits (Personality persona))\<rparr>\<rparr>),
               saved_traits = ?saved\<rparr>"
      have r1: "traits_in_range ?s1"
        using rc rd apply_influence_range [of now influence evidence trait]
        by (simp add: traits_in_range_def list_all_map_assign)
      from Suc.prems(1) p None Some have
        "PropagateTraitInfluence_with (UpdateTrait fuel now) traitName influence ?s1 = Some (Inr s')"
        by (simp add: Let_def)
      then have "propagate_loop (UpdateTrait fuel now) traitName influence
          (TraitCorrelations (Personality persona)) ?s1 = Some (Inr s')"
        by (simp add: PropagateTraitInfluence_with_def)
      from propagate_loop_inv [OF step this r1] show ?thesis .
    next
      case N2: None
      from Suc.prems(1) p None N2 have "s' = \<lparr>activePersona = Some persona, saved_traits = ?saved\<rparr>"
        by (simp add: Let_def)
      with Suc.prems(2) p show ?thesis
        by (simp add: traits_in_range_def)
    qed
  qed
qed

lemma UpdateTrait_sequence_inv:
  "UpdateTrait_sequence fuel calls s = Some (Inr s') \<Longrightarrow> traits_in_range s \<Longrightarrow> traits_in_range s'"
proof (induction calls arbitrary: s)
  case Nil
  then show ?case by simp
next
  case (Cons call rest)
  from Cons.prems(1) obtain s1 where
    c: "UpdateTrait fuel (fst call) (fst (snd call)) (fst (snd (snd call))) (snd (snd (snd call))) s
         = Some (Inr s1)"
    and r: "UpdateTrait_sequence fuel rest s1 = Some (Inr s')"
    by (auto split: option.splits sum.splits)
  from UpdateTrait_inv [OF c Cons.prems(2)] have "traits_in_range s1" .
  with Cons.IH [OF r] show ?case .
qed

lemma UpdateTraitBaseline_value:
  assumes "is_initialized m" and "\<not> context_not E (default_context m)"
  shows "fst (UpdateTraitBaseline E now traitName influence m) = None
    \<and> CurrentValue_b (baseline_of traitName (snd (UpdateTraitBaseline E now traitName influence m)))
        = CurrentValue_b (baseline_of traitName m) + influence"
  using assms
  by (auto simp: UpdateTraitBaseline_def UpdateTraitStability_def baseline_of_def map_index_def
      map_of_map_assign Let_def split: option.splits prod.splits)

end
